theory Spec2Isabelle
  imports Complex_Main "HOL-Library.AList" "HOL-Library.Sublist"
begin

section \<open>Python primitives used by the relay\<close>

text \<open>
  Strings are byte strings (the UTF-8 encoding of the Python \<open>str\<close>).  A Python
  \<open>dict\<close> is an association list with distinct keys in insertion order:
  \<open>d[k] = v\<close> is \<^const>\<open>AList.update\<close> (an existing key keeps its position, a new
  key goes to the end), \<open>del d[k]\<close> is \<^const>\<open>AList.delete\<close>, \<open>d.get(k)\<close> is
  \<^const>\<open>map_of\<close>.
\<close>

text \<open>Truthiness of an \<open>Optional[str]\<close>: \<open>None\<close> and \<open>""\<close> are falsy.\<close>

definition truthy :: "string option \<Rightarrow> bool" where
  "truthy v = (case v of None \<Rightarrow> False | Some s \<Rightarrow> s \<noteq> [])"

text \<open>\<open>a or b\<close> on \<open>Optional[str]\<close> values.\<close>

definition py_or :: "string option \<Rightarrow> string option \<Rightarrow> string option" where
  "py_or a b = (if truthy a then a else b)"

text \<open>\<open>s.startswith(p)\<close>\<close>

definition startswith :: "string \<Rightarrow> string \<Rightarrow> bool" where
  "startswith s p = prefix p s"

text \<open>\<open>s.rstrip("/")\<close>\<close>

definition rstrip_slash :: "string \<Rightarrow> string" where
  "rstrip_slash s = rev (dropWhile (\<lambda>c. c = CHR ''/'') (rev s))"

text \<open>
  The first occurrence of a non-empty separator: \<open>s.split(sep, 1)\<close> is
  \<open>[a, b]\<close> when \<open>split_once sep s = Some (a, b)\<close> and \<open>[s]\<close> when it is \<open>None\<close>.
\<close>

fun split_once :: "string \<Rightarrow> string \<Rightarrow> (string \<times> string) option" where
  "split_once sep [] = None"
| "split_once sep (c # cs) =
     (if prefix sep (c # cs) then Some ([], drop (length sep) (c # cs))
      else map_option (\<lambda>(a, b). (c # a, b)) (split_once sep cs))"

text \<open>\<open>s.split(sep, 1)[-1]\<close> and \<open>s.split(sep, 1)[0]\<close>\<close>

definition split1_last :: "string \<Rightarrow> string \<Rightarrow> string" where
  "split1_last sep s = (case split_once sep s of None \<Rightarrow> s | Some (a, b) \<Rightarrow> b)"

definition split1_first :: "string \<Rightarrow> string \<Rightarrow> string" where
  "split1_first sep s = (case split_once sep s of None \<Rightarrow> s | Some (a, b) \<Rightarrow> a)"

text \<open>
  \<open>s[:n]\<close>: the first \<open>n\<close> characters of a string.  In the UTF-8 encoding a
  character is a byte outside \<open>0x80\<close> to \<open>0xBF\<close> followed by its continuation
  bytes, which lie in that range.
\<close>

fun take_chars :: "nat \<Rightarrow> string \<Rightarrow> string" where
  "take_chars n [] = []"
| "take_chars n (c # cs) =
     (if 128 \<le> (of_char c :: nat) \<and> (of_char c :: nat) < 192 then c # take_chars n cs
      else (case n of 0 \<Rightarrow> [] | Suc k \<Rightarrow> c # take_chars k cs))"

text \<open>\<open>sep.join(xs)\<close>\<close>

fun join :: "string \<Rightarrow> string list \<Rightarrow> string" where
  "join sep [] = []"
| "join sep [x] = x"
| "join sep (x # y # ys) = x @ sep @ join sep (y # ys)"

text \<open>\<open>str(n)\<close> for an integer: decimal digits, a leading \<open>-\<close> when negative.\<close>

definition digit_char :: "nat \<Rightarrow> char" where
  "digit_char d = ''0123456789'' ! d"

fun str_nat :: "nat \<Rightarrow> string" where
  "str_nat n = (if n < 10 then [digit_char n] else str_nat (n div 10) @ [digit_char (n mod 10)])"

definition str_int :: "int \<Rightarrow> string" where
  "str_int i = (if i < 0 then CHR ''-'' # str_nat (nat (- i)) else str_nat (nat i))"

text \<open>The number of binary digits of a natural number (\<open>int.bit_length\<close>).\<close>

fun bit_length :: "nat \<Rightarrow> nat" where
  "bit_length n = (if n = 0 then 0 else Suc (bit_length (n div 2)))"

declare bit_length.simps [simp del]

text \<open>
  The builtin \<open>max(iterable, key=f)\<close> on a non-empty iterable: one pass that
  replaces the running best only on a strictly greater key, so the first of several
  maximal items is the one returned.
\<close>

fun max_loop :: "('a \<Rightarrow> 'k::linorder) \<Rightarrow> 'a \<Rightarrow> 'a list \<Rightarrow> 'a" where
  "max_loop f best [] = best"
| "max_loop f best (x # xs) = max_loop f (if f best < f x then x else best) xs"

definition max_key :: "('a \<Rightarrow> 'k::linorder) \<Rightarrow> 'a list \<Rightarrow> 'a option" where
  "max_key f xs = (case xs of [] \<Rightarrow> None | x # rest \<Rightarrow> Some (max_loop f x rest))"

section \<open>Configuration\<close>

text \<open>
  The module-level constants read from the environment at import time.
  \<open>ALLOWED_HOST_env\<close> is the optional \<open>ALLOWED_HOST\<close> override.
\<close>

record config =
  P6_BASE_URL :: string
  P6_ACCEPT :: string
  P6_VERSION :: string
  AUTO_SESSION_ENABLED :: bool
  AUTO_SESSION_STRICT_MODE :: bool
  ALLOWED_HOST_env :: "string option"

text \<open>\<open>(url.split("//", 1)[-1]).split("/", 1)[0]\<close>\<close>

definition host_of :: "string \<Rightarrow> string" where
  "host_of url = split1_first ''/'' (split1_last ''//'' url)"

definition DEFAULT_ALLOWED_HOST :: "config \<Rightarrow> string" where
  "DEFAULT_ALLOWED_HOST cfg = host_of (P6_BASE_URL cfg)"

definition ALLOWED_HOST :: "config \<Rightarrow> string" where
  "ALLOWED_HOST cfg =
     (case ALLOWED_HOST_env cfg of None \<Rightarrow> DEFAULT_ALLOWED_HOST cfg | Some h \<Rightarrow> h)"

section \<open>Sessions and the session manager\<close>

record SavedCreds =
  username :: string
  password :: string
  creds_database_name :: string

text \<open>
  \<open>created_at\<close> is the float returned by \<open>time.time()\<close>; every finite float is
  a rational number, and only its order is used.
\<close>

record Session =
  cookies :: string
  auth_token :: "string option"
  created_at :: rat
  database_name :: "string option"
  creds :: "SavedCreds option"

type_synonym sessions = "(string \<times> Session) list"

text \<open>
  The process state: the in-memory dictionary of the session manager, the snapshot
  file (\<open>None\<close> when it does not exist or cannot be read), and whether the file can
  be opened for writing (a failing write is logged and leaves the file as it was).
  The entries of a readable file are valid sessions, as the program writes them; a
  file with an invalid entry, which \<open>_load_from_disk\<close> reads up to that entry, is
  outside this model.
\<close>

record store =
  sessions :: sessions
  disk :: "sessions option"
  disk_writable :: bool

definition save_to_disk :: "'a store_scheme \<Rightarrow> 'a store_scheme" where
  "save_to_disk st = (if disk_writable st then st\<lparr>disk := Some (sessions st)\<rparr> else st)"

text \<open>\<open>SessionManager.__init__\<close>: an empty dictionary, then \<open>_load_from_disk\<close>.\<close>

definition load_from_disk :: "'a store_scheme \<Rightarrow> 'a store_scheme" where
  "load_from_disk st =
     (case disk st of
        None \<Rightarrow> st
      | Some snap \<Rightarrow> st\<lparr>sessions := fold (\<lambda>(sid, ses) m. AList.update sid ses m) snap (sessions st)\<rparr>)"

definition init_store :: "'a store_scheme \<Rightarrow> 'a store_scheme" where
  "init_store st = load_from_disk (st\<lparr>sessions := []\<rparr>)"

definition add_session :: "string \<Rightarrow> Session \<Rightarrow> 'a store_scheme \<Rightarrow> 'a store_scheme" where
  "add_session session_id session st =
     save_to_disk (st\<lparr>sessions := AList.update session_id session (sessions st)\<rparr>)"

definition get_session :: "'a store_scheme \<Rightarrow> string \<Rightarrow> Session option" where
  "get_session st session_id = map_of (sessions st) session_id"

definition get_latest_session_id :: "'a store_scheme \<Rightarrow> string option" where
  "get_latest_session_id st =
     (if sessions st = [] then None
      else map_option fst (max_key (\<lambda>kv. created_at (snd kv)) (sessions st)))"

definition get_latest_session :: "'a store_scheme \<Rightarrow> (string \<times> Session) option" where
  "get_latest_session st =
     (case get_latest_session_id st of
        None \<Rightarrow> None
      | Some sid \<Rightarrow>
          (if sid \<noteq> [] then map_option (\<lambda>ses. (sid, ses)) (map_of (sessions st) sid)
           else None))"

definition remove_session :: "string \<Rightarrow> 'a store_scheme \<Rightarrow> 'a store_scheme" where
  "remove_session session_id st =
     (if session_id \<in> fst ` set (sessions st)
      then save_to_disk (st\<lparr>sessions := AList.delete session_id (sessions st)\<rparr>)
      else st)"

definition clear_all :: "'a store_scheme \<Rightarrow> 'a store_scheme" where
  "clear_all st = save_to_disk (st\<lparr>sessions := []\<rparr>)"

text \<open>
  A clock reading is a double, the number \<open>mantissa * 2 ^ exponent\<close>; for the
  doubles the mantissa is below \<open>2 ^ 53\<close> in absolute value and the exponent lies
  between \<open>-1074\<close> and \<open>971\<close>.
\<close>

record double =
  mantissa :: int
  exponent :: int

definition double_value :: "double \<Rightarrow> rat" where
  "double_value x =
     (if 0 \<le> exponent x then of_int (mantissa x) * 2 ^ nat (exponent x)
      else of_int (mantissa x) / 2 ^ nat (- exponent x))"

text \<open>\<open>a / 2 ^ s\<close> rounded to the nearest integer, a tie going to the even one.\<close>

definition round_shift :: "nat \<Rightarrow> nat \<Rightarrow> nat" where
  "round_shift a s =
     (let q = a div 2 ^ s; r = a mod 2 ^ s; half = 2 ^ (s - 1)
      in if r < half then q else if half < r then q + 1 else if even q then q else q + 1)"

text \<open>
  The float product \<open>now * 1000\<close> as the machine computes it (IEEE 754 binary64,
  round to nearest, ties to even), as a significand and an exponent and before the
  range check: the exact product \<open>mantissa * 1000\<close> is cut to 53 binary digits.
\<close>

definition float_mul_1000 :: "double \<Rightarrow> int \<times> int" where
  "float_mul_1000 now =
     (let m = mantissa now * 1000; a = nat \<bar>m\<bar>; len = bit_length a
      in if len \<le> 53 then (m, exponent now)
         else (sgn m * int (round_shift a (len - 53)), exponent now + int (len - 53)))"

text \<open>\<open>int(q * 2 ^ e)\<close>: truncation towards zero.\<close>

definition trunc_scaled :: "int \<Rightarrow> int \<Rightarrow> int" where
  "trunc_scaled q e = (if 0 \<le> e then q * 2 ^ nat e else sgn q * (\<bar>q\<bar> div 2 ^ nat (- e)))"

text \<open>
  \<open>int(now * 1000)\<close>; \<open>None\<close> when the rounded product is beyond the doubles: the
  product is then infinite and \<open>int\<close> raises \<open>OverflowError\<close>.
\<close>

definition computed_millis :: "double \<Rightarrow> int option" where
  "computed_millis now =
     (case float_mul_1000 now of
        (q, e) \<Rightarrow> if 2 ^ 1024 \<le> \<bar>trunc_scaled q e\<bar> then None else Some (trunc_scaled q e))"

text \<open>
  \<open>_mk_session_id\<close> at clock reading \<open>now\<close>: \<open>str(int(now * 1000))\<close>, \<open>None\<close>
  when it raises.
\<close>

definition mk_session_id :: "double \<Rightarrow> string option" where
  "mk_session_id now = map_option str_int (computed_millis now)"

section \<open>URL construction\<close>

text \<open>
  \<open>urllib.parse.quote(s, safe)\<close>: the bytes \<open>A-Z a-z 0-9 _ . - ~\<close> and those of
  \<open>safe\<close> are kept, every other byte becomes \<open>%XX\<close> in upper-case hexadecimal.
\<close>

definition always_safe :: "char \<Rightarrow> bool" where
  "always_safe c \<longleftrightarrow>
     c \<in> set ''ABCDEFGHIJKLMNOPQRSTUVWXYZabcdefghijklmnopqrstuvwxyz0123456789_.-~''"

definition hex_digit :: "nat \<Rightarrow> char" where
  "hex_digit d = ''0123456789ABCDEF'' ! d"

definition percent :: "char \<Rightarrow> string" where
  "percent c = [CHR ''%'', hex_digit (of_char c div 16), hex_digit (of_char c mod 16)]"

definition quote :: "string \<Rightarrow> string \<Rightarrow> string" where
  "quote safe s = concat (map (\<lambda>c. if always_safe c \<or> c \<in> set safe then [c] else percent c) s)"

text \<open>\<open>quote_plus(s)\<close>: quote with the space kept, then every space replaced by \<open>+\<close>.\<close>

definition quote_plus :: "string \<Rightarrow> string" where
  "quote_plus s = map (\<lambda>c. if c = CHR '' '' then CHR ''+'' else c) (quote '' '' s)"

text \<open>
  Query values: a string, an integer, or a list of those (the values the endpoints
  of this program put into a query; other JSON values of \<open>/call\<close> are not modelled).
\<close>

datatype qatom = AStr string | AInt int

datatype qvalue = Scalar qatom | Seq "qatom list"

fun str_atom :: "qatom \<Rightarrow> string" where
  "str_atom (AStr s) = s"
| "str_atom (AInt i) = str_int i"

text \<open>\<open>urllib.parse.urlencode(params, doseq=True)\<close>\<close>

fun encode_item :: "string \<times> qvalue \<Rightarrow> string list" where
  "encode_item (k, Scalar a) = [quote_plus k @ ''='' @ quote_plus (str_atom a)]"
| "encode_item (k, Seq elts) = map (\<lambda>elt. quote_plus k @ ''='' @ quote_plus (str_atom elt)) elts"

definition urlencode :: "(string \<times> qvalue) list \<Rightarrow> string" where
  "urlencode params = join ''&'' (concat (map encode_item params))"

text \<open>\<open>_build_target_url\<close>; a missing or empty \<open>query\<close> gives no parameters.\<close>

definition build_target_url :: "config \<Rightarrow> string \<Rightarrow> (string \<times> qvalue) list option \<Rightarrow> string" where
  "build_target_url cfg path query =
     (let path = (if startswith path ''/'' then path else ''/'' @ path);
          base = rstrip_slash (P6_BASE_URL cfg);
          params = (case query of None \<Rightarrow> [] | Some q \<Rightarrow> q)
      in if params \<noteq> [] then base @ path @ ''?'' @ urlencode params else base @ path)"

section \<open>Request headers\<close>

type_synonym headers = "(string \<times> string) list"

text \<open>\<open>d.update(e)\<close>\<close>

definition dict_update :: "headers \<Rightarrow> headers \<Rightarrow> headers" where
  "dict_update d e = fold (\<lambda>(k, v) m. AList.update k v m) e d"

text \<open>\<open>_default_headers\<close>; \<open>extra\<close> absent is the empty dictionary.\<close>

definition default_headers :: "config \<Rightarrow> Session \<Rightarrow> headers \<Rightarrow> headers" where
  "default_headers cfg ses extra =
     (let headers = [(''Accept'', P6_ACCEPT cfg), (''Cookie'', cookies ses)];
          headers = (if P6_VERSION cfg \<noteq> [] then AList.update ''Version'' (P6_VERSION cfg) headers
                     else headers);
          headers = (case auth_token ses of
                       None \<Rightarrow> headers
                     | Some tok \<Rightarrow> if tok \<noteq> [] then AList.update ''AuthToken'' tok headers else headers)
      in dict_update headers extra)"

text \<open>The keys the retry pass regenerates.\<close>

definition regenerated :: "string \<Rightarrow> bool" where
  "regenerated k \<longleftrightarrow> k \<in> {''Cookie'', ''AuthToken'', ''Accept'', ''Version''}"

section \<open>The upstream service\<close>

text \<open>
  What the program sends: a relayed request (\<open>requests.request\<close>) or a login
  handshake (\<open>requests.post\<close> in \<open>_try_login\<close>).
\<close>

datatype event =
    Upstream (ev_method: string) (ev_url: string) (ev_headers: headers)
             (ev_data: "string option") (ev_json: "string option")
  | LoginPost (ev_url: string) (ev_headers: headers)

text \<open>
  The parsed body, as far as the program reads it: a JSON object with string or
  null fields, a JSON array, or any other JSON value (on an array and on those
  \<open>.get\<close> raises).
\<close>

datatype json = JObject "(string \<times> string option) list" | JArray "json list" | JOther

text \<open>
  A response: \<open>resp_headers\<close> in the order and spelling received, the cookie jar
  as name/value pairs, the body text, and the result of \<open>r.json()\<close> (\<open>None\<close> when
  it raises).
\<close>

record response =
  status_code :: nat
  resp_headers :: headers
  resp_cookies :: "(string \<times> string) list"
  resp_text :: string
  resp_json :: "json option"

text \<open>
  The upstream is any function of the requests sent so far and the current one; it
  answers with a response, or with \<open>None\<close> when \<open>requests\<close> raises (timeout,
  connection or TLS failure).
\<close>

type_synonym network = "event list \<Rightarrow> event \<Rightarrow> response option"

record world = store +
  trace :: "event list"

datatype failure =
  HTTPException nat string | RequestException | JSONDecodeError | TypeError | OverflowError

definition send :: "network \<Rightarrow> event \<Rightarrow> world \<Rightarrow> response option \<times> world" where
  "send net ev w = (net (trace w) ev, w\<lparr>trace := trace w @ [ev]\<rparr>)"

text \<open>\<open>r.headers.get(k)\<close>: the header dictionary of a response ignores case.\<close>

definition ascii_lower :: "char \<Rightarrow> char" where
  "ascii_lower c =
     (let n = (of_char c :: nat) in if 65 \<le> n \<and> n \<le> 90 then char_of (n + 32) else c)"

definition headers_get :: "response \<Rightarrow> string \<Rightarrow> string option" where
  "headers_get r k =
     map_of (map (\<lambda>(a, b). (map ascii_lower a, b)) (resp_headers r)) (map ascii_lower k)"

definition content_type :: "response \<Rightarrow> string" where
  "content_type r = (case headers_get r ''content-type'' of None \<Rightarrow> [] | Some c \<Rightarrow> c)"

definition extract_cookies :: "response \<Rightarrow> string" where
  "extract_cookies resp = join ''; '' (map (\<lambda>(name, val). name @ ''='' @ val) (resp_cookies resp))"

text \<open>\<open>data.get(k)\<close> on the parsed object.\<close>

definition json_get :: "(string \<times> string option) list \<Rightarrow> string \<Rightarrow> string option" where
  "json_get d k = (case map_of d k of None \<Rightarrow> None | Some v \<Rightarrow> v)"

text \<open>
  The token scan of \<open>_try_login\<close>: the two headers, then, when that gave nothing and
  the body is JSON, the three body fields; an exception while reading the body
  leaves the header result.
\<close>

definition extract_token :: "response \<Rightarrow> string option" where
  "extract_token r =
     (let auth_token = py_or (headers_get r ''AuthToken'') (headers_get r ''X-Auth-Token'')
      in if \<not> truthy auth_token \<and> startswith (content_type r) ''application/json''
         then (case resp_json r of
                 Some (JObject d) \<Rightarrow>
                   py_or (py_or (json_get d ''AuthToken'') (json_get d ''authToken'')) (json_get d ''token'')
               | _ \<Rightarrow> auth_token)
         else auth_token)"

definition login_url :: "config \<Rightarrow> string \<Rightarrow> string" where
  "login_url cfg db_name = P6_BASE_URL cfg @ ''/login?DatabaseName='' @ quote ''/'' db_name"

definition login_headers :: "config \<Rightarrow> string \<Rightarrow> string \<Rightarrow> headers" where
  "login_headers cfg user pass =
     (let headers = [(''username'', user), (''password'', pass), (''Accept'', P6_ACCEPT cfg)]
      in if P6_VERSION cfg \<noteq> [] then AList.update ''Version'' (P6_VERSION cfg) headers else headers)"

definition try_login ::
  "config \<Rightarrow> network \<Rightarrow> string \<Rightarrow> string \<Rightarrow> string \<Rightarrow> world
     \<Rightarrow> (failure + string \<times> string option) \<times> world" where
  "try_login cfg net user pass db_name w =
     (case send net (LoginPost (login_url cfg db_name) (login_headers cfg user pass)) w of
        (None, w1) \<Rightarrow> (Inl RequestException, w1)
      | (Some r, w1) \<Rightarrow>
          if status_code r \<ge> 400
          then (Inl (HTTPException (status_code r) (''Re-login failed: '' @ take_chars 500 (resp_text r))), w1)
          else (Inr (extract_cookies r, extract_token r), w1))"

section \<open>The relay engine\<close>

text \<open>
  \<open>_upstream_with_retry\<close>.  The assignments to \<open>ses.cookies\<close> and
  \<open>ses.auth_token\<close> change the object held by the dictionary of the session
  manager, in place; nothing is written to the snapshot file.  Only
  \<open>HTTPException\<close> is caught around the re-login and the retry.
\<close>

definition upstream_with_retry ::
  "config \<Rightarrow> network \<Rightarrow> string \<Rightarrow> string \<Rightarrow> string \<Rightarrow> headers \<Rightarrow> string option \<Rightarrow> string option
     \<Rightarrow> world \<Rightarrow> (failure + response) \<times> world" where
  "upstream_with_retry cfg net ses_id method url headers data json_body w =
     (case get_session w ses_id of
        None \<Rightarrow> (Inl (HTTPException 401 ''Invalid or expired session_id. Please login again.''), w)
      | Some ses \<Rightarrow>
          let host = host_of url in
          if host \<noteq> ALLOWED_HOST cfg then (Inl (HTTPException 400 (''Host not allowed: '' @ host)), w)
          else
            (case send net (Upstream method url headers data json_body) w of
               (None, w1) \<Rightarrow> (Inl RequestException, w1)
             | (Some r, w1) \<Rightarrow>
                 if status_code r \<noteq> 401 then (Inr r, w1)
                 else
                   (case creds ses of
                      None \<Rightarrow> (Inr r, w1)
                    | Some c \<Rightarrow>
                        (case try_login cfg net (username c) (password c) (creds_database_name c) w1 of
                           (Inl (HTTPException s d), w2) \<Rightarrow> (Inr r, w2)
                         | (Inl e, w2) \<Rightarrow> (Inl e, w2)
                         | (Inr (new_cookies, new_token), w2) \<Rightarrow>
                             let upd = (\<lambda>s. s\<lparr>cookies := new_cookies, auth_token := new_token\<rparr>);
                                 w3 = w2\<lparr>sessions := AList.map_entry ses_id upd (sessions w2)\<rparr>;
                                 headers2 = default_headers cfg (upd ses)
                                              (filter (\<lambda>(k, v). \<not> regenerated k) headers)
                             in (case send net (Upstream method url headers2 data json_body) w3 of
                                   (None, w4) \<Rightarrow> (Inl RequestException, w4)
                                 | (Some r2, w4) \<Rightarrow> (Inr r2, w4))))))"

text \<open>\<open>_get_session_id_or_latest\<close>\<close>

definition get_session_id_or_latest :: "config \<Rightarrow> world \<Rightarrow> string option \<Rightarrow> failure + string" where
  "get_session_id_or_latest cfg w provided_session_id =
     (if truthy provided_session_id
      then Inr (case provided_session_id of None \<Rightarrow> [] | Some sid \<Rightarrow> sid)
      else if \<not> AUTO_SESSION_ENABLED cfg
      then Inl (HTTPException 401 ''session_id required (AUTO_SESSION_ENABLED is disabled)'')
      else
        (let latest_sid = get_latest_session_id w in
         if \<not> truthy latest_sid
         then (if AUTO_SESSION_STRICT_MODE cfg
               then Inl (HTTPException 401 ''No active session found. Please login first via /login'')
               else Inl (HTTPException 401 ''No sessions available''))
         else Inr (case latest_sid of None \<Rightarrow> [] | Some sid \<Rightarrow> sid)))"

section \<open>Endpoints\<close>

record LoginRequest =
  req_username :: string
  req_password :: string
  databaseName :: string
  remember :: bool

text \<open>\<open>LoginResponse(session_id, cookies, authToken, remember)\<close>\<close>

datatype LoginResponse = LoginResponse string string "string option" bool

text \<open>
  \<open>POST /login\<close>.  The clock is read twice: \<open>t_id\<close> by \<open>_mk_session_id\<close>, and
  \<open>t_created\<close> by the default factory of \<open>Session.created_at\<close>.
\<close>

definition login ::
  "config \<Rightarrow> network \<Rightarrow> LoginRequest \<Rightarrow> double \<Rightarrow> rat \<Rightarrow> world
     \<Rightarrow> (failure + LoginResponse) \<times> world" where
  "login cfg net req t_id t_created w =
     (case try_login cfg net (req_username req) (req_password req) (databaseName req) w of
        (Inl e, w1) \<Rightarrow> (Inl e, w1)
      | (Inr (new_cookies, new_token), w1) \<Rightarrow>
          (case mk_session_id t_id of
             None \<Rightarrow> (Inl OverflowError, w1)
           | Some ses_id \<Rightarrow>
               let session = \<lparr>cookies = new_cookies, auth_token = new_token, created_at = t_created,
                              database_name = Some (databaseName req),
                              creds = (if remember req
                                       then Some \<lparr>username = req_username req,
                                                  password = req_password req,
                                                  creds_database_name = databaseName req\<rparr>
                                       else None)\<rparr>
               in (Inr (LoginResponse ses_id new_cookies new_token (remember req)),
                   add_session ses_id session w1)))"

text \<open>
  The body of \<open>/call\<close>: a dictionary or list goes out as JSON (\<open>Structured\<close>),
  any other value as raw data (\<open>Opaque\<close>).
\<close>

datatype payload = Structured string | Opaque string

record CallRequest =
  req_session_id :: "string option"
  req_method :: string
  req_path :: string
  req_query :: "(string \<times> qvalue) list option"
  req_headers :: "headers option"
  req_body :: "payload option"

datatype body_out = JsonBody json | TextBody string

record ProxyResponse =
  out_status :: nat
  out_headers :: headers
  out_body :: body_out

text \<open>
  The copy \<open>out_headers\<close> of the response headers is a plain dictionary, so
  \<open>out_headers.get("content-type", "")\<close> is an exact-case lookup.
\<close>

definition out_content_type :: "response \<Rightarrow> string" where
  "out_content_type r = (case map_of (resp_headers r) ''content-type'' of None \<Rightarrow> [] | Some c \<Rightarrow> c)"

definition call :: "config \<Rightarrow> network \<Rightarrow> CallRequest \<Rightarrow> world \<Rightarrow> (failure + ProxyResponse) \<times> world" where
  "call cfg net req w =
     (case get_session_id_or_latest cfg w (req_session_id req) of
        Inl e \<Rightarrow> (Inl e, w)
      | Inr ses_id \<Rightarrow>
          (case get_session w ses_id of
             None \<Rightarrow> (Inl (HTTPException 401 ''Invalid or expired session_id. Please login again.''), w)
           | Some ses \<Rightarrow>
               let url = build_target_url cfg (req_path req) (req_query req);
                   headers = default_headers cfg ses (case req_headers req of None \<Rightarrow> [] | Some h \<Rightarrow> h);
                   json_body = (case req_body req of Some (Structured b) \<Rightarrow> Some b | _ \<Rightarrow> None);
                   data = (case req_body req of Some (Opaque b) \<Rightarrow> Some b | _ \<Rightarrow> None)
               in (case upstream_with_retry cfg net ses_id (req_method req) url headers data json_body w of
                     (Inl e, w1) \<Rightarrow> (Inl e, w1)
                   | (Inr r, w1) \<Rightarrow>
                       (Inr \<lparr>out_status = status_code r, out_headers = resp_headers r,
                             out_body = (if startswith (out_content_type r) ''application/json''
                                         then (case resp_json r of Some j \<Rightarrow> JsonBody j
                                                                 | None \<Rightarrow> TextBody (resp_text r))
                                         else TextBody (resp_text r))\<rparr>, w1))))"

text \<open>
  The read-only helpers \<open>/obs/byName\<close>, \<open>/projects/list\<close> and \<open>/obs/find\<close>:
  the same resolution and lookup, a query built from the parameters, one relayed
  \<open>GET\<close>.  The first two call \<open>r.json()\<close> unguarded.
\<close>

definition relay_get ::
  "config \<Rightarrow> network \<Rightarrow> string option \<Rightarrow> string \<Rightarrow> string \<Rightarrow> (string \<times> qvalue) list \<Rightarrow> world
     \<Rightarrow> (failure + response) \<times> world" where
  "relay_get cfg net provided missing path q w =
     (case get_session_id_or_latest cfg w provided of
        Inl e \<Rightarrow> (Inl e, w)
      | Inr ses_id \<Rightarrow>
          (case get_session w ses_id of
             None \<Rightarrow> (Inl (HTTPException 401 missing), w)
           | Some ses \<Rightarrow>
               upstream_with_retry cfg net ses_id ''GET'' (build_target_url cfg path (Some q))
                 (default_headers cfg ses []) None None w))"

definition unguarded_body :: "response \<Rightarrow> failure + ProxyResponse" where
  "unguarded_body r =
     (if startswith (out_content_type r) ''application/json''
      then (case resp_json r of
              None \<Rightarrow> Inl JSONDecodeError
            | Some j \<Rightarrow> Inr \<lparr>out_status = status_code r, out_headers = resp_headers r, out_body = JsonBody j\<rparr>)
      else Inr \<lparr>out_status = status_code r, out_headers = resp_headers r, out_body = TextBody (resp_text r)\<rparr>)"

text \<open>\<open>_json_or_text\<close>\<close>

definition json_or_text :: "response \<Rightarrow> body_out" where
  "json_or_text resp =
     (if startswith (content_type resp) ''application/json''
      then (case resp_json resp of Some j \<Rightarrow> JsonBody j | None \<Rightarrow> TextBody (resp_text resp))
      else TextBody (resp_text resp))"

definition obs_by_name ::
  "config \<Rightarrow> network \<Rightarrow> string option \<Rightarrow> string \<Rightarrow> string \<Rightarrow> string \<Rightarrow> world
     \<Rightarrow> (failure + ProxyResponse) \<times> world" where
  "obs_by_name cfg net provided name fields_csv order_by w =
     (case relay_get cfg net provided ''Invalid or expired session_id. Please login again.'' ''/obs''
             [(''Filter'', Scalar (AStr (''Name='' @ [CHR 0x27] @ name @ [CHR 0x27]))),
              (''Fields'', Scalar (AStr fields_csv)),
              (''OrderBy'', Scalar (AStr order_by))] w of
        (Inl e, w1) \<Rightarrow> (Inl e, w1)
      | (Inr r, w1) \<Rightarrow> (unguarded_body r, w1))"

definition projects_list ::
  "config \<Rightarrow> network \<Rightarrow> string option \<Rightarrow> string option \<Rightarrow> string \<Rightarrow> string \<Rightarrow> int option \<Rightarrow> world
     \<Rightarrow> (failure + ProxyResponse) \<times> world" where
  "projects_list cfg net provided filter_expr fields_csv order_by limit w =
     (let q = [(''Fields'', Scalar (AStr fields_csv)), (''OrderBy'', Scalar (AStr order_by))];
          q = (case filter_expr of
                 None \<Rightarrow> q
               | Some f \<Rightarrow> if f \<noteq> [] then AList.update ''Filter'' (Scalar (AStr f)) q else q);
          q = (case limit of
                 None \<Rightarrow> q
               | Some n \<Rightarrow> if n \<noteq> 0 then AList.update ''MaxObjects'' (Scalar (AInt n)) q else q)
      in (case relay_get cfg net provided ''Invalid or expired session_id. Please login again.''
                 ''/project'' q w of
            (Inl e, w1) \<Rightarrow> (Inl e, w1)
          | (Inr r, w1) \<Rightarrow> (unguarded_body r, w1)))"

definition obs_find ::
  "config \<Rightarrow> network \<Rightarrow> string option \<Rightarrow> string \<Rightarrow> string \<Rightarrow> string \<Rightarrow> int option \<Rightarrow> world
     \<Rightarrow> (failure + ProxyResponse) \<times> world" where
  "obs_find cfg net provided q fields_csv order_by limit w =
     (let qparams = [(''Filter'', Scalar (AStr (''Name LIKE '' @ [CHR 0x27] @ ''%'' @ q @ ''%'' @ [CHR 0x27]))),
                     (''Fields'', Scalar (AStr fields_csv)),
                     (''OrderBy'', Scalar (AStr order_by))];
          qparams = (case limit of
                       None \<Rightarrow> qparams
                     | Some n \<Rightarrow> if n \<noteq> 0 then AList.update ''MaxObjects'' (Scalar (AInt n)) qparams
                                 else qparams)
      in (case relay_get cfg net provided ''No valid session. Login and try again.'' ''/obs'' qparams w of
            (Inl e, w1) \<Rightarrow> (Inl e, w1)
          | (Inr r, w1) \<Rightarrow>
              (Inr \<lparr>out_status = status_code r, out_headers = resp_headers r,
                    out_body = json_or_text r\<rparr>, w1)))"

text \<open>
  \<open>GET /session/active\<close>; the reply carries the identifier, the creation time
  (its formatting as a date is left out), whether credentials are remembered, and
  the database.
\<close>

datatype ActiveSession = ActiveSession string rat bool "string option"

definition session_active :: "world \<Rightarrow> failure + ActiveSession" where
  "session_active w =
     (case get_latest_session w of
        None \<Rightarrow> Inl (HTTPException 404 ''No active sessions'')
      | Some (sid, ses) \<Rightarrow>
          Inr (ActiveSession sid (created_at ses) (creds ses \<noteq> None) (database_name ses)))"

text \<open>\<open>DELETE /session/{session_id}\<close> and \<open>DELETE /sessions/clear\<close>\<close>

definition delete_session :: "string \<Rightarrow> world \<Rightarrow> (failure + string) \<times> world" where
  "delete_session sid w =
     (if sid \<notin> fst ` set (sessions w) then (Inl (HTTPException 404 ''Session not found''), w)
      else (Inr (''Session '' @ sid @ '' deleted''), remove_session sid w))"

definition clear_all_sessions :: "world \<Rightarrow> string \<times> world" where
  "clear_all_sessions w = (''All sessions cleared'', clear_all w)"

text \<open>
  \<open>GET /projects/by_obs\<close>.  \<open>loads\<close> is \<open>json.loads\<close> on a text body (\<open>None\<close>
  when it raises).  The session object fetched at the start is the one the relay
  changes in place, so the headers of the second request are built from the
  session as the store holds it then.  Everything raised while the OBS reply is
  read ends in \<open>HTTPException(status=502, ...)\<close>, a call with an unknown keyword,
  which raises \<open>TypeError\<close>.
\<close>

definition first_object_id :: "(string \<Rightarrow> json option) \<Rightarrow> body_out \<Rightarrow> failure + string option" where
  "first_object_id loads obs_body =
     (case (case obs_body of
              JsonBody (JArray xs) \<Rightarrow> Some (JArray xs)
            | JsonBody other \<Rightarrow> None
            | TextBody t \<Rightarrow> loads t) of
        Some (JArray (JObject item # rest)) \<Rightarrow> Inr (json_get item ''ObjectId'')
      | _ \<Rightarrow> Inl TypeError)"

definition projects_by_obs ::
  "config \<Rightarrow> network \<Rightarrow> (string \<Rightarrow> json option) \<Rightarrow> string option \<Rightarrow> string option \<Rightarrow> string option
     \<Rightarrow> string \<Rightarrow> string \<Rightarrow> int option \<Rightarrow> world \<Rightarrow> (failure + ProxyResponse) \<times> world" where
  "projects_by_obs cfg net loads provided obs_name obs_id fields_csv order_by limit w =
     (case get_session_id_or_latest cfg w provided of
        Inl e \<Rightarrow> (Inl e, w)
      | Inr sid \<Rightarrow>
          (case get_session w sid of
             None \<Rightarrow> (Inl (HTTPException 401 ''No valid session. Login and try again.''), w)
           | Some ses \<Rightarrow>
               let projects = (\<lambda>oid w1.
                     let qparams = [(''Fields'', Scalar (AStr fields_csv)),
                                    (''OrderBy'', Scalar (AStr order_by)),
                                    (''Filter'', Scalar (AStr (''OBSObjectId='' @ [CHR 0x27] @
                                       (case oid of None \<Rightarrow> ''None'' | Some i \<Rightarrow> i) @ [CHR 0x27])))];
                         qparams = (case limit of
                                      None \<Rightarrow> qparams
                                    | Some n \<Rightarrow> if n \<noteq> 0
                                                then AList.update ''MaxObjects'' (Scalar (AInt n)) qparams
                                                else qparams);
                         ses1 = (case get_session w1 sid of None \<Rightarrow> ses | Some s1 \<Rightarrow> s1)
                     in (case upstream_with_retry cfg net sid ''GET''
                                (build_target_url cfg ''/project'' (Some qparams))
                                (default_headers cfg ses1 []) None None w1 of
                           (Inl e, w2) \<Rightarrow> (Inl e, w2)
                         | (Inr r, w2) \<Rightarrow>
                             (Inr \<lparr>out_status = status_code r, out_headers = resp_headers r,
                                   out_body = json_or_text r\<rparr>, w2)))
               in if truthy obs_id then projects obs_id w
                  else if \<not> truthy obs_name
                  then (Inl (HTTPException 400 ''Provide obs_name or obs_id''), w)
                  else
                    (case upstream_with_retry cfg net sid ''GET''
                            (build_target_url cfg ''/obs''
                               (Some [(''Filter'', Scalar (AStr (''Name='' @ [CHR 0x27] @
                                         (case obs_name of None \<Rightarrow> [] | Some n \<Rightarrow> n) @ [CHR 0x27]))),
                                      (''Fields'', Scalar (AStr ''Name,ObjectId'')),
                                      (''MaxObjects'', Scalar (AInt 1))]))
                            (default_headers cfg ses []) None None w of
                       (Inl e, w1) \<Rightarrow> (Inl e, w1)
                     | (Inr obs_resp, w1) \<Rightarrow>
                         if status_code obs_resp \<ge> 400
                         then (Inr \<lparr>out_status = status_code obs_resp,
                                    out_headers = resp_headers obs_resp,
                                    out_body = json_or_text obs_resp\<rparr>, w1)
                         else (case first_object_id loads (json_or_text obs_resp) of
                                 Inl e \<Rightarrow> (Inl e, w1)
                               | Inr oid \<Rightarrow> projects oid w1))))"

section \<open>Vocabulary of the statements\<close>

text \<open>The kinds of request in a trace, and how many of each it holds.\<close>

fun is_upstream :: "event \<Rightarrow> bool" where
  "is_upstream (Upstream m u h d j) = True"
| "is_upstream (LoginPost u h) = False"

definition upstream_calls :: "event list \<Rightarrow> nat" where
  "upstream_calls tr = length (filter is_upstream tr)"

definition login_calls :: "event list \<Rightarrow> nat" where
  "login_calls tr = length (filter (\<lambda>ev. \<not> is_upstream ev) tr)"

text \<open>The re-login request sent for remembered credentials \<open>c\<close>.\<close>

definition relogin_request :: "config \<Rightarrow> SavedCreds \<Rightarrow> event" where
  "relogin_request cfg c =
     LoginPost (login_url cfg (creds_database_name c)) (login_headers cfg (username c) (password c))"

text \<open>The session after a re-login answered by \<open>l\<close>, and the headers of the retry.\<close>

definition refreshed :: "Session \<Rightarrow> response \<Rightarrow> Session" where
  "refreshed ses l = ses\<lparr>cookies := extract_cookies l, auth_token := extract_token l\<rparr>"

definition retry_headers :: "config \<Rightarrow> Session \<Rightarrow> response \<Rightarrow> headers \<Rightarrow> headers" where
  "retry_headers cfg ses l h =
     default_headers cfg (refreshed ses l) (filter (\<lambda>(k, v). \<not> regenerated k) h)"

text \<open>
  The second tier of the resolution policy in the words of the specification: fail
  when auto-selection is off, otherwise take the identifier that
  \<open>GET /session/active\<close> reports, or fail when it reports none.
\<close>

definition latest_or_fail :: "config \<Rightarrow> world \<Rightarrow> failure + string" where
  "latest_or_fail cfg w =
     (if \<not> AUTO_SESSION_ENABLED cfg
      then Inl (HTTPException 401 ''session_id required (AUTO_SESSION_ENABLED is disabled)'')
      else (case session_active w of
              Inr (ActiveSession sid t a db) \<Rightarrow> Inr sid
            | Inl e \<Rightarrow>
                Inl (HTTPException 401
                       (if AUTO_SESSION_STRICT_MODE cfg
                        then ''No active session found. Please login first via /login''
                        else ''No sessions available''))))"

text \<open>The bytes that can occur in an encoded query string.\<close>

definition query_safe :: "char \<Rightarrow> bool" where
  "query_safe c \<longleftrightarrow> always_safe c \<or> c \<in> set ''%+=&''"

text \<open>
  A base URL of the usual form: a scheme without \<open>/\<close>, then \<open>//\<close>, a non-empty
  host without \<open>/\<close>, and either nothing or a path that starts with \<open>/\<close>.
\<close>

definition base_form :: "string \<Rightarrow> string \<Rightarrow> string \<Rightarrow> string \<Rightarrow> bool" where
  "base_form base scheme host rest \<longleftrightarrow>
     base = scheme @ ''//'' @ host @ rest \<and> CHR ''/'' \<notin> set scheme \<and> CHR ''/'' \<notin> set host \<and>
     host \<noteq> [] \<and> (rest = [] \<or> hd rest = CHR ''/'')"

section \<open>Example states\<close>

text \<open>Concrete configurations, sessions, upstreams and requests for the closed statements.\<close>

definition example_world :: world where
  "example_world = \<lparr>sessions = [], disk = None, disk_writable = True, trace = []\<rparr>"

definition plain_session :: "rat \<Rightarrow> Session" where
  "plain_session t = \<lparr>cookies = ''JSESSIONID=old'', auth_token = Some ''tok-old'', created_at = t,
     database_name = Some ''db'', creds = None\<rparr>"

definition tied_world :: world where
  "tied_world = add_session ''1002'' (plain_session 5) (add_session ''1001'' (plain_session 5) example_world)"

definition example_cfg :: config where
  "example_cfg = \<lparr>P6_BASE_URL = ''http://p6/api'', P6_ACCEPT = ''application/json'', P6_VERSION = [],
     AUTO_SESSION_ENABLED = True, AUTO_SESSION_STRICT_MODE = True, ALLOWED_HOST_env = None\<rparr>"

definition unauthorized :: response where
  "unauthorized = \<lparr>status_code = 401, resp_headers = [], resp_cookies = [], resp_text = ''expired'',
     resp_json = None\<rparr>"

definition login_reply :: "nat \<Rightarrow> response" where
  "login_reply code = \<lparr>status_code = code, resp_headers = [], resp_cookies = [(''JSESSIONID'', ''new'')],
     resp_text = [], resp_json = None\<rparr>"

definition example_net :: "nat \<Rightarrow> network" where
  "example_net code = (\<lambda>tr ev. case ev of Upstream m u h d j \<Rightarrow> Some unauthorized
                                          | LoginPost u h \<Rightarrow> Some (login_reply code))"







definition alice_session :: Session where
  "alice_session = \<lparr>cookies = ''JSESSIONID=old'', auth_token = Some ''tok-old'', created_at = 5 / 2,
     database_name = Some ''db'',
     creds = Some \<lparr>username = ''alice'', password = ''pw'', creds_database_name = ''db''\<rparr>\<rparr>"

definition alice_world :: world where
  "alice_world = add_session ''2500'' alice_session example_world"

definition example_url :: string where
  "example_url = ''http://p6/api/obs''"

definition caller_headers :: headers where
  "caller_headers = [(''X-Trace'', ''42''), (''Cookie'', ''stale'')]"

definition first_request :: event where
  "first_request = Upstream ''GET'' example_url (default_headers example_cfg alice_session caller_headers) None None"

definition example_relay :: "nat \<Rightarrow> (failure + response) \<times> world" where
  "example_relay code =
     upstream_with_retry example_cfg (example_net code) ''2500'' ''GET'' example_url
       (default_headers example_cfg alice_session caller_headers) None None alice_world"


definition example_call :: CallRequest where
  "example_call = \<lparr>req_session_id = Some ''2500'', req_method = ''GET'', req_path = ''obs'',
     req_query = None, req_headers = None, req_body = None\<rparr>"

definition ok_response :: response where
  "ok_response = \<lparr>status_code = 200, resp_headers = [], resp_cookies = [], resp_text = ''[]'',
     resp_json = None\<rparr>"

text \<open>An upstream that rejects the very first request and accepts every later one.\<close>

definition expired_once :: network where
  "expired_once = (\<lambda>tr ev. case ev of
                      Upstream m u h d j \<Rightarrow> if tr = [] then Some unauthorized else Some ok_response
                    | LoginPost u h \<Rightarrow> Some (login_reply 200))"

definition renewed_world :: world where
  "renewed_world =
     snd (upstream_with_retry example_cfg expired_once ''2500'' ''GET'' example_url
            (default_headers example_cfg alice_session caller_headers) None None alice_world)"


definition strict_cfg :: config where
  "strict_cfg = example_cfg\<lparr>AUTO_SESSION_ENABLED := False\<rparr>"

definition slash_cfg :: config where
  "slash_cfg = example_cfg\<lparr>P6_BASE_URL := ''http://p6/api/''\<rparr>"

definition filter_query :: "(string \<times> qvalue) list" where
  "filter_query = [(''Filter'', Scalar (AStr (''Name='' @ [CHR 0x27] @ ''X'' @ [CHR 0x27])))]"

section \<open>The latest session\<close>

lemma max_loop_split:
  "\<exists>pre m post. b # xs = pre @ m # post \<and> max_loop f b xs = m \<and>
     (\<forall>y \<in> set pre. f y < f m) \<and> (\<forall>y \<in> set post. f y \<le> f m)"
proof (induction xs arbitrary: b)
  case Nil
  show ?case by (rule exI [of _ "[]"]) simp
next
  case (Cons x xs)
  show ?case
  proof (cases "f b < f x")
    case True
    from Cons.IH [of x] obtain pre m post where
      d: "x # xs = pre @ m # post" and r: "max_loop f x xs = m" and
      lo: "\<forall>y \<in> set pre. f y < f m" and hi: "\<forall>y \<in> set post. f y \<le> f m"
      by blast
    have "f x \<le> f m"
    proof (cases pre)
      case Nil
      with d show ?thesis by simp
    next
      case (Cons p ps)
      with d lo show ?thesis by auto
    qed
    with True have bm: "f b < f m" by simp
    from True r have r': "max_loop f b (x # xs) = m" by simp
    from d have d': "b # x # xs = (b # pre) @ m # post" by simp
    from lo bm have "\<forall>y \<in> set (b # pre). f y < f m" by simp
    with d' r' hi have
      "b # x # xs = (b # pre) @ m # post \<and> max_loop f b (x # xs) = m \<and>
       (\<forall>y \<in> set (b # pre). f y < f m) \<and> (\<forall>y \<in> set post. f y \<le> f m)"
      by blast
    then show ?thesis by blast
  next
    case False
    from Cons.IH [of b] obtain pre m post where
      d: "b # xs = pre @ m # post" and r: "max_loop f b xs = m" and
      lo: "\<forall>y \<in> set pre. f y < f m" and hi: "\<forall>y \<in> set post. f y \<le> f m"
      by blast
    show ?thesis
    proof (cases pre)
      case Nil
      with d have "m = b" "post = xs" by simp_all
      with r hi False have
        "b # x # xs = [] @ b # (x # xs) \<and> max_loop f b (x # xs) = b \<and>
         (\<forall>y \<in> set []. f y < f b) \<and> (\<forall>y \<in> set (x # xs). f y \<le> f b)"
        by auto
      then show ?thesis by blast
    next
      case (Cons p ps)
      with d have pb: "p = b" and xs: "xs = ps @ m # post" by simp_all
      from lo Cons pb have bm: "f b < f m" by simp
      with False have xm: "f x < f m" by simp
      from False r have r': "max_loop f b (x # xs) = m" by simp
      from xs have d': "b # x # xs = (b # x # ps) @ m # post" by simp
      from lo Cons xm bm have "\<forall>y \<in> set (b # x # ps). f y < f m" by simp
      with d' r' hi have
        "b # x # xs = (b # x # ps) @ m # post \<and> max_loop f b (x # xs) = m \<and>
         (\<forall>y \<in> set (b # x # ps). f y < f m) \<and> (\<forall>y \<in> set post. f y \<le> f m)"
        by blast
      then show ?thesis by blast
    qed
  qed
qed

lemma latest_split:
  assumes "sessions st \<noteq> []"
  shows "\<exists>pre sid ses post. sessions st = pre @ (sid, ses) # post \<and>
           get_latest_session_id st = Some sid \<and>
           (\<forall>kv \<in> set pre. created_at (snd kv) < created_at ses) \<and>
           (\<forall>kv \<in> set post. created_at (snd kv) \<le> created_at ses)"
proof -
  from assms obtain b xs where bx: "sessions st = b # xs" by (cases "sessions st") auto
  from max_loop_split [of b xs "\<lambda>kv. created_at (snd kv)"] obtain pre m post where
    d: "b # xs = pre @ m # post" and r: "max_loop (\<lambda>kv. created_at (snd kv)) b xs = m" and
    lo: "\<forall>y \<in> set pre. created_at (snd y) < created_at (snd m)" and
    hi: "\<forall>y \<in> set post. created_at (snd y) \<le> created_at (snd m)"
    by blast
  have "get_latest_session_id st = Some (fst m)"
    using bx r by (simp add: get_latest_session_id_def max_key_def)
  with d lo hi bx have
    "sessions st = pre @ (fst m, snd m) # post \<and> get_latest_session_id st = Some (fst m) \<and>
     (\<forall>kv \<in> set pre. created_at (snd kv) < created_at (snd m)) \<and>
     (\<forall>kv \<in> set post. created_at (snd kv) \<le> created_at (snd m))"
    by simp
  then show ?thesis by blast
qed

lemma map_of_split_distinct:
  "distinct (map fst xs) \<Longrightarrow> xs = pre @ (k, v) # post \<Longrightarrow> map_of xs k = Some v"
  by (rule map_of_is_SomeI) auto

text \<open>
  C4 (as amended).  On an empty store \<open>get_latest_session_id\<close> and
  \<open>get_latest_session\<close> return nothing.  On a non-empty store the identifier
  returned is that of an entry whose creation time is maximal, and every entry
  before it in the dictionary has a strictly smaller creation time: among entries
  that share the maximum, the one inserted first wins.
\<close>

theorem get_latest_first_inserted_wins:
  assumes "distinct (map fst (sessions st))"
  shows "(sessions st = [] \<longrightarrow> get_latest_session_id st = None \<and> get_latest_session st = None) \<and>
         (sessions st \<noteq> [] \<longrightarrow>
            (\<exists>pre sid ses post. sessions st = pre @ (sid, ses) # post \<and>
               get_latest_session_id st = Some sid \<and>
               (sid \<noteq> [] \<longrightarrow> get_latest_session st = Some (sid, ses)) \<and>
               (\<forall>kv \<in> set pre. created_at (snd kv) < created_at ses) \<and>
               (\<forall>kv \<in> set post. created_at (snd kv) \<le> created_at ses)))"
proof (intro conjI impI)
  assume "sessions st = []"
  then show "get_latest_session_id st = None"
    by (simp add: get_latest_session_id_def)
  then show "get_latest_session st = None"
    by (simp add: get_latest_session_def)
next
  assume "sessions st \<noteq> []"
  from latest_split [OF this] obtain pre sid ses post where
    d: "sessions st = pre @ (sid, ses) # post" and r: "get_latest_session_id st = Some sid" and
    lo: "\<forall>kv \<in> set pre. created_at (snd kv) < created_at ses" and
    hi: "\<forall>kv \<in> set post. created_at (snd kv) \<le> created_at ses"
    by blast
  from assms d have "map_of (sessions st) sid = Some ses"
    by (rule map_of_split_distinct)
  with r have "sid \<noteq> [] \<longrightarrow> get_latest_session st = Some (sid, ses)"
    by (simp add: get_latest_session_def)
  with d r lo hi show "\<exists>pre sid ses post. sessions st = pre @ (sid, ses) # post \<and>
               get_latest_session_id st = Some sid \<and>
               (sid \<noteq> [] \<longrightarrow> get_latest_session st = Some (sid, ses)) \<and>
               (\<forall>kv \<in> set pre. created_at (snd kv) < created_at ses) \<and>
               (\<forall>kv \<in> set post. created_at (snd kv) \<le> created_at ses)"
    by blast
qed

lemma tied_sessions: "sessions tied_world = [(''1001'', plain_session 5), (''1002'', plain_session 5)]"
  by (simp add: tied_world_def add_session_def save_to_disk_def example_world_def)

theorem get_latest_first_inserted_wins_witness:
  "sessions tied_world = [(''1001'', plain_session 5), (''1002'', plain_session 5)] \<and>
   get_latest_session_id tied_world = Some ''1001'' \<and>
   get_latest_session tied_world = Some (''1001'', plain_session 5)"
proof -
  have s: "sessions tied_world = [(''1001'', plain_session 5), (''1002'', plain_session 5)]"
    by (rule tied_sessions)
  have "distinct (map fst (sessions tied_world))" by (simp add: s)
  from get_latest_first_inserted_wins [OF this] s obtain pre sid ses post where
    d: "[(''1001'', plain_session 5), (''1002'', plain_session 5)] = pre @ (sid, ses) # post" and
    r: "get_latest_session_id tied_world = Some sid" and
    g: "sid \<noteq> [] \<longrightarrow> get_latest_session tied_world = Some (sid, ses)" and
    lo: "\<forall>kv \<in> set pre. created_at (snd kv) < created_at ses"
    by auto
  have "pre = []"
  proof (cases pre)
    case Nil then show ?thesis .
  next
    case (Cons p ps)
    with d have "p = (''1001'', plain_session 5)" by simp
    moreover from d Cons have "ses = plain_session 5"
      by (cases ps) (auto simp: Cons_eq_append_conv)
    ultimately show ?thesis using lo Cons by (simp add: plain_session_def)
  qed
  with d have "sid = ''1001''" "ses = plain_session 5" by simp_all
  with r g s show ?thesis by simp
qed

text \<open>
  Two sessions with the same creation time: the claim as written picks the one
  inserted last (\<open>1002\<close>), the program returns the one inserted first.
\<close>

theorem last_inserted_tie_counterexample:
  "sessions tied_world = [(''1001'', plain_session 5), (''1002'', plain_session 5)] \<and>
   get_latest_session_id tied_world = Some ''1001'' \<and>
   get_latest_session_id tied_world \<noteq> Some ''1002''"
  by (simp add: tied_sessions get_latest_session_id_def max_key_def plain_session_def)

section \<open>Session identifiers\<close>




declare str_nat.simps [simp del]









lemma send_eq: "send net ev w = (net (trace w) ev, w\<lparr>trace := trace w @ [ev]\<rparr>)"
  by (simp add: send_def)


lemma try_login_result:
  "fst (try_login cfg net u p d w) =
     (case net (trace w) (LoginPost (login_url cfg d) (login_headers cfg u p)) of
        None \<Rightarrow> Inl RequestException
      | Some r \<Rightarrow> if status_code r \<ge> 400
                  then Inl (HTTPException (status_code r) (''Re-login failed: '' @ take_chars 500 (resp_text r)))
                  else Inr (extract_cookies r, extract_token r))"
  by (simp add: try_login_def send_def split: option.splits)

lemma add_session_sessions [simp]:
  "sessions (add_session k v st) = AList.update k v (sessions st)"
  by (simp add: add_session_def save_to_disk_def)








text \<open>
  The rounding of the product at work.  The double next below 9/1000 lies in
  millisecond 8, its product with 1000 rounds to 9.0, and so it gets the identifier
  of the double next above 9/1000, while 0.0085, in the same millisecond 8, gets
  another.  The same happens at 1793793600.001.  A reading whose product is beyond
  the doubles gives no identifier.
\<close>

lemma rounded_product_examples:
  "double_value \<lparr>mantissa = 5188146770730811, exponent = - 59\<rparr> * 1000 < 9"
  "computed_millis \<lparr>mantissa = 5188146770730811, exponent = - 59\<rparr> = Some 9"
  "computed_millis \<lparr>mantissa = 5188146770730812, exponent = - 59\<rparr> = Some 9"
  "computed_millis \<lparr>mantissa = 4899916394579100, exponent = - 59\<rparr> = Some 8"
  "double_value \<lparr>mantissa = 7523715671658594, exponent = - 22\<rparr> * 1000 < 1793793600001"
  "computed_millis \<lparr>mantissa = 7523715671658594, exponent = - 22\<rparr> = Some 1793793600001"
  "computed_millis \<lparr>mantissa = 7523715671658595, exponent = - 22\<rparr> = Some 1793793600001"
proof -
  show "double_value \<lparr>mantissa = 5188146770730811, exponent = - 59\<rparr> * 1000 < 9"
    by (simp add: double_value_def)
  show "double_value \<lparr>mantissa = 7523715671658594, exponent = - 22\<rparr> * 1000 < 1793793600001"
    by (simp add: double_value_def)
  have l1: "bit_length 5188146770730811000 = 63" by (simp add: bit_length.simps)
  have l2: "bit_length 5188146770730812000 = 63" by (simp add: bit_length.simps)
  have l3: "bit_length 4899916394579100000 = 63" by (simp add: bit_length.simps)
  have l4: "bit_length 7523715671658594000 = 63" by (simp add: bit_length.simps)
  have l5: "bit_length 7523715671658595000 = 63" by (simp add: bit_length.simps)
  show "computed_millis \<lparr>mantissa = 5188146770730811, exponent = - 59\<rparr> = Some 9"
    by (simp add: computed_millis_def float_mul_1000_def l1 round_shift_def trunc_scaled_def Let_def)
  show "computed_millis \<lparr>mantissa = 5188146770730812, exponent = - 59\<rparr> = Some 9"
    by (simp add: computed_millis_def float_mul_1000_def l2 round_shift_def trunc_scaled_def Let_def)
  show "computed_millis \<lparr>mantissa = 4899916394579100, exponent = - 59\<rparr> = Some 8"
    by (simp add: computed_millis_def float_mul_1000_def l3 round_shift_def trunc_scaled_def Let_def)
  show "computed_millis \<lparr>mantissa = 7523715671658594, exponent = - 22\<rparr> = Some 1793793600001"
    by (simp add: computed_millis_def float_mul_1000_def l4 round_shift_def trunc_scaled_def Let_def)
  show "computed_millis \<lparr>mantissa = 7523715671658595, exponent = - 22\<rparr> = Some 1793793600001"
    by (simp add: computed_millis_def float_mul_1000_def l5 round_shift_def trunc_scaled_def Let_def)
qed

lemma overflow_example:
  "mk_session_id \<lparr>mantissa = 4611686018427388, exponent = 962\<rparr> = None"
proof -
  have "bit_length 4611686018427388000 = 63" by (simp add: bit_length.simps)
  then show ?thesis
    by (simp add: mk_session_id_def computed_millis_def float_mul_1000_def round_shift_def
        trunc_scaled_def Let_def)
qed




section \<open>The paths through one relay\<close>



lemma relay_first_raises:
  "get_session w sid = Some ses \<Longrightarrow> host_of url = ALLOWED_HOST cfg \<Longrightarrow>
   net (trace w) (Upstream m url h d j) = None \<Longrightarrow>
   upstream_with_retry cfg net sid m url h d j w =
     (Inl RequestException, w\<lparr>trace := trace w @ [Upstream m url h d j]\<rparr>)"
  by (simp add: upstream_with_retry_def send_def)


lemma relay_no_creds:
  "get_session w sid = Some ses \<Longrightarrow> host_of url = ALLOWED_HOST cfg \<Longrightarrow>
   net (trace w) (Upstream m url h d j) = Some r \<Longrightarrow> status_code r = 401 \<Longrightarrow>
   creds ses = None \<Longrightarrow>
   upstream_with_retry cfg net sid m url h d j w =
     (Inr r, w\<lparr>trace := trace w @ [Upstream m url h d j]\<rparr>)"
  by (simp add: upstream_with_retry_def send_def)

lemma relay_login_raises:
  "get_session w sid = Some ses \<Longrightarrow> host_of url = ALLOWED_HOST cfg \<Longrightarrow>
   net (trace w) (Upstream m url h d j) = Some r \<Longrightarrow> status_code r = 401 \<Longrightarrow>
   creds ses = Some c \<Longrightarrow>
   net (trace w @ [Upstream m url h d j]) (relogin_request cfg c) = None \<Longrightarrow>
   upstream_with_retry cfg net sid m url h d j w =
     (Inl RequestException, w\<lparr>trace := trace w @ [Upstream m url h d j, relogin_request cfg c]\<rparr>)"
  by (simp add: upstream_with_retry_def send_def try_login_def relogin_request_def)

lemma relay_login_refused:
  "get_session w sid = Some ses \<Longrightarrow> host_of url = ALLOWED_HOST cfg \<Longrightarrow>
   net (trace w) (Upstream m url h d j) = Some r \<Longrightarrow> status_code r = 401 \<Longrightarrow>
   creds ses = Some c \<Longrightarrow>
   net (trace w @ [Upstream m url h d j]) (relogin_request cfg c) = Some l \<Longrightarrow>
   status_code l \<ge> 400 \<Longrightarrow>
   upstream_with_retry cfg net sid m url h d j w =
     (Inr r, w\<lparr>trace := trace w @ [Upstream m url h d j, relogin_request cfg c]\<rparr>)"
  by (simp add: upstream_with_retry_def send_def try_login_def relogin_request_def)

lemma relay_retry:
  "get_session w sid = Some ses \<Longrightarrow> host_of url = ALLOWED_HOST cfg \<Longrightarrow>
   net (trace w) (Upstream m url h d j) = Some r \<Longrightarrow> status_code r = 401 \<Longrightarrow>
   creds ses = Some c \<Longrightarrow>
   net (trace w @ [Upstream m url h d j]) (relogin_request cfg c) = Some l \<Longrightarrow>
   status_code l < 400 \<Longrightarrow>
   upstream_with_retry cfg net sid m url h d j w =
     ((case net (trace w @ [Upstream m url h d j, relogin_request cfg c])
              (Upstream m url (retry_headers cfg ses l h) d j) of
         None \<Rightarrow> Inl RequestException
       | Some r2 \<Rightarrow> Inr r2),
      w\<lparr>sessions := AList.map_entry sid
                        (\<lambda>s. s\<lparr>cookies := extract_cookies l, auth_token := extract_token l\<rparr>)
                        (sessions w),
        trace := trace w @ [Upstream m url h d j, relogin_request cfg c,
                            Upstream m url (retry_headers cfg ses l h) d j]\<rparr>)"
  by (simp add: upstream_with_retry_def send_def try_login_def relogin_request_def
      retry_headers_def refreshed_def Let_def split: option.splits)

section \<open>The retry bound\<close>

lemma upstream_calls_append [simp]:
  "upstream_calls (xs @ ys) = upstream_calls xs + upstream_calls ys"
  by (simp add: upstream_calls_def)

lemma login_calls_append [simp]:
  "login_calls (xs @ ys) = login_calls xs + login_calls ys"
  by (simp add: login_calls_def)

lemma count_calls [simp]:
  "upstream_calls [] = 0" "login_calls [] = 0"
  "upstream_calls (Upstream m u h d j # tr) = Suc (upstream_calls tr)"
  "upstream_calls (LoginPost u h # tr) = upstream_calls tr"
  "upstream_calls (relogin_request cfg c # tr) = upstream_calls tr"
  "login_calls (Upstream m u h d j # tr) = login_calls tr"
  "login_calls (LoginPost u h # tr) = Suc (login_calls tr)"
  "login_calls (relogin_request cfg c # tr) = Suc (login_calls tr)"
  by (simp_all add: upstream_calls_def login_calls_def relogin_request_def)

lemma example_host: "host_of example_url = ''p6''" "ALLOWED_HOST example_cfg = ''p6''"
  by (simp_all add: host_of_def example_url_def split1_first_def split1_last_def ALLOWED_HOST_def
      DEFAULT_ALLOWED_HOST_def example_cfg_def)

lemma alice_world_eq:
  "alice_world = \<lparr>sessions = [(''2500'', alice_session)], disk = Some [(''2500'', alice_session)],
                   disk_writable = True, trace = []\<rparr>"
  by (simp add: alice_world_def add_session_def save_to_disk_def example_world_def)

lemma alice_trace: "trace alice_world = []"
  by (simp add: alice_world_eq)

lemma alice_lookup: "get_session alice_world ''2500'' = Some alice_session"
  by (simp add: alice_world_eq get_session_def)

text \<open>
  C1 (as amended).  A relay whose first upstream attempt is answered with 401:
  without remembered credentials that one request is all that is sent and the 401
  is returned.  With remembered credentials exactly one re-login request follows.
  When the login is refused (status 400 or more) nothing else is sent and the
  original 401 is returned; when it succeeds exactly one more upstream request is
  sent and its answer is returned whatever its status.  A request that raises
  instead of answering ends the relay with that exception.  In every case at most
  two upstream requests and at most one login request are added to the trace.
\<close>

theorem single_retry_bound:
  assumes s: "get_session w sid = Some ses" and host: "host_of url = ALLOWED_HOST cfg"
      and first: "net (trace w) (Upstream m url h d j) = Some r" and rej: "status_code r = 401"
      and run: "upstream_with_retry cfg net sid m url h d j w = (res, w')"
  shows "(case creds ses of
            None \<Rightarrow> res = Inr r \<and> trace w' = trace w @ [Upstream m url h d j]
          | Some c \<Rightarrow>
              (case net (trace w @ [Upstream m url h d j]) (relogin_request cfg c) of
                 None \<Rightarrow> res = Inl RequestException \<and>
                         trace w' = trace w @ [Upstream m url h d j, relogin_request cfg c]
               | Some l \<Rightarrow>
                   if status_code l \<ge> 400
                   then res = Inr r \<and> trace w' = trace w @ [Upstream m url h d j, relogin_request cfg c]
                   else trace w' = trace w @ [Upstream m url h d j, relogin_request cfg c,
                                              Upstream m url (retry_headers cfg ses l h) d j] \<and>
                        res = (case net (trace w @ [Upstream m url h d j, relogin_request cfg c])
                                        (Upstream m url (retry_headers cfg ses l h) d j) of
                                 None \<Rightarrow> Inl RequestException
                               | Some r2 \<Rightarrow> Inr r2))) \<and>
         upstream_calls (trace w') \<le> upstream_calls (trace w) + 2 \<and>
         login_calls (trace w') \<le> login_calls (trace w) + 1"
proof (cases "creds ses")
  case None
  have "upstream_with_retry cfg net sid m url h d j w =
          (Inr r, w\<lparr>trace := trace w @ [Upstream m url h d j]\<rparr>)"
    by (rule relay_no_creds; fact)
  with run have "res = Inr r" "w' = w\<lparr>trace := trace w @ [Upstream m url h d j]\<rparr>" by simp_all
  with None show ?thesis by simp
next
  case (Some c)
  show ?thesis
  proof (cases "net (trace w @ [Upstream m url h d j]) (relogin_request cfg c)")
    case None
    have "upstream_with_retry cfg net sid m url h d j w =
            (Inl RequestException, w\<lparr>trace := trace w @ [Upstream m url h d j, relogin_request cfg c]\<rparr>)"
      by (rule relay_login_raises; fact)
    with run have "res = Inl RequestException"
      "w' = w\<lparr>trace := trace w @ [Upstream m url h d j, relogin_request cfg c]\<rparr>" by simp_all
    with Some None show ?thesis by simp
  next
    case l: (Some l)
    show ?thesis
    proof (cases "status_code l \<ge> 400")
      case True
      have "upstream_with_retry cfg net sid m url h d j w =
              (Inr r, w\<lparr>trace := trace w @ [Upstream m url h d j, relogin_request cfg c]\<rparr>)"
        by (rule relay_login_refused; fact)
      with run have "res = Inr r"
        "w' = w\<lparr>trace := trace w @ [Upstream m url h d j, relogin_request cfg c]\<rparr>" by simp_all
      with Some l True show ?thesis by simp
    next
      case False
      then have ok: "status_code l < 400" by simp
      have "upstream_with_retry cfg net sid m url h d j w =
        ((case net (trace w @ [Upstream m url h d j, relogin_request cfg c])
                (Upstream m url (retry_headers cfg ses l h) d j) of
           None \<Rightarrow> Inl RequestException
         | Some r2 \<Rightarrow> Inr r2),
        w\<lparr>sessions := AList.map_entry sid
                          (\<lambda>s. s\<lparr>cookies := extract_cookies l, auth_token := extract_token l\<rparr>)
                          (sessions w),
          trace := trace w @ [Upstream m url h d j, relogin_request cfg c,
                              Upstream m url (retry_headers cfg ses l h) d j]\<rparr>)"
        by (rule relay_retry; fact)
      with run have "res = (case net (trace w @ [Upstream m url h d j, relogin_request cfg c])
                            (Upstream m url (retry_headers cfg ses l h) d j) of
                     None \<Rightarrow> Inl RequestException | Some r2 \<Rightarrow> Inr r2)"
        "trace w' = trace w @ [Upstream m url h d j, relogin_request cfg c,
                               Upstream m url (retry_headers cfg ses l h) d j]"
        by auto
      with Some l False show ?thesis by simp
    qed
  qed
qed

lemma example_first:
  "example_net code (trace alice_world) first_request = Some unauthorized"
  "status_code unauthorized = 401"
  by (simp_all add: example_net_def first_request_def unauthorized_def)

lemma example_login_answer:
  "example_net code tr (relogin_request cfg c) = Some (login_reply code)"
  by (simp add: example_net_def relogin_request_def)

lemma example_retry_answer:
  "example_net code tr (Upstream m u h d j) = Some unauthorized"
  by (simp add: example_net_def)

theorem single_retry_bound_witness:
  "fst (example_relay 200) = Inr unauthorized \<and>
   upstream_calls (trace (snd (example_relay 200))) = 2 \<and>
   login_calls (trace (snd (example_relay 200))) = 1"
proof -
  have run: "upstream_with_retry example_cfg (example_net 200) ''2500'' ''GET'' example_url
               (default_headers example_cfg alice_session caller_headers) None None alice_world =
             (fst (example_relay 200), snd (example_relay 200))"
    by (simp add: example_relay_def)
  have host: "host_of example_url = ALLOWED_HOST example_cfg" by (simp add: example_host)
  have first: "example_net 200 (trace alice_world)
                 (Upstream ''GET'' example_url (default_headers example_cfg alice_session caller_headers)
                    None None) = Some unauthorized"
    by (simp add: example_net_def)
  from single_retry_bound [where net = "example_net 200", OF alice_lookup host first example_first(2) run]
  show ?thesis
    by (simp add: alice_session_def example_login_answer example_retry_answer login_reply_def
        alice_trace)
qed

theorem refused_login_counterexample:
  "map_option creds (get_session alice_world ''2500'') =
     Some (Some \<lparr>username = ''alice'', password = ''pw'', creds_database_name = ''db''\<rparr>) \<and>
   example_net 403 (trace alice_world) first_request = Some unauthorized \<and>
   status_code unauthorized = 401 \<and>
   fst (example_relay 403) = Inr unauthorized \<and>
   trace (snd (example_relay 403)) =
     [first_request,
      relogin_request example_cfg \<lparr>username = ''alice'', password = ''pw'', creds_database_name = ''db''\<rparr>] \<and>
   upstream_calls (trace (snd (example_relay 403))) = 1"
proof -
  have host: "host_of example_url = ALLOWED_HOST example_cfg" by (simp add: example_host)
  have first: "example_net 403 (trace alice_world)
                 (Upstream ''GET'' example_url (default_headers example_cfg alice_session caller_headers)
                    None None) = Some unauthorized"
    by (simp add: example_net_def)
  have c: "creds alice_session =
             Some \<lparr>username = ''alice'', password = ''pw'', creds_database_name = ''db''\<rparr>"
    by (simp add: alice_session_def)
  have l: "example_net 403 (trace alice_world @
              [Upstream ''GET'' example_url (default_headers example_cfg alice_session caller_headers)
                 None None])
             (relogin_request example_cfg
                \<lparr>username = ''alice'', password = ''pw'', creds_database_name = ''db''\<rparr>) =
           Some (login_reply 403)"
    by (rule example_login_answer)
  have refused: "status_code (login_reply 403) \<ge> 400" by (simp add: login_reply_def)
  have "example_relay 403 =
          (Inr unauthorized,
           alice_world\<lparr>trace := trace alice_world @
              [Upstream ''GET'' example_url (default_headers example_cfg alice_session caller_headers)
                 None None,
               relogin_request example_cfg
                 \<lparr>username = ''alice'', password = ''pw'', creds_database_name = ''db''\<rparr>]\<rparr>)"
    unfolding example_relay_def
    by (rule relay_login_refused [OF alice_lookup host _ example_first(2) c _ refused]) (rule first l)+
  then show ?thesis
    by (simp add: first_request_def alice_lookup c alice_trace example_first(2) example_retry_answer)
qed

section \<open>A refused re-login\<close>

text \<open>
  C7.  When the first attempt is answered with 401, the session has remembered
  credentials and the re-login is answered with a status of 400 or more, the relay
  returns the first response as it was received, and the session store is what it
  was before the call: in particular the cookie and token of the session are
  unchanged.
\<close>

theorem refused_relogin_leaves_session:
  assumes s: "get_session w sid = Some ses" and host: "host_of url = ALLOWED_HOST cfg"
      and first: "net (trace w) (Upstream m url h d j) = Some r" and rej: "status_code r = 401"
      and c: "creds ses = Some c"
      and l: "net (trace w @ [Upstream m url h d j]) (relogin_request cfg c) = Some l"
      and refused: "status_code l \<ge> 400"
      and run: "upstream_with_retry cfg net sid m url h d j w = (res, w')"
  shows "res = Inr r \<and> sessions w' = sessions w \<and> disk w' = disk w \<and>
         get_session w' sid = Some ses \<and>
         map_option cookies (get_session w' sid) = Some (cookies ses) \<and>
         map_option auth_token (get_session w' sid) = Some (auth_token ses)"
proof -
  have "upstream_with_retry cfg net sid m url h d j w =
          (Inr r, w\<lparr>trace := trace w @ [Upstream m url h d j, relogin_request cfg c]\<rparr>)"
    by (rule relay_login_refused; fact)
  with run have "res = Inr r" "w' = w\<lparr>trace := trace w @ [Upstream m url h d j, relogin_request cfg c]\<rparr>"
    by simp_all
  with s show ?thesis by (simp add: get_session_def)
qed

theorem refused_relogin_leaves_session_witness:
  "fst (example_relay 403) = Inr unauthorized \<and>
   get_session (snd (example_relay 403)) ''2500'' = Some alice_session \<and>
   map_option cookies (get_session (snd (example_relay 403)) ''2500'') = Some ''JSESSIONID=old'' \<and>
   map_option auth_token (get_session (snd (example_relay 403)) ''2500'') = Some (Some ''tok-old'')"
proof -
  have run: "upstream_with_retry example_cfg (example_net 403) ''2500'' ''GET'' example_url
               (default_headers example_cfg alice_session caller_headers) None None alice_world =
             (fst (example_relay 403), snd (example_relay 403))"
    by (simp add: example_relay_def)
  have host: "host_of example_url = ALLOWED_HOST example_cfg" by (simp add: example_host)
  have first: "example_net 403 (trace alice_world)
                 (Upstream ''GET'' example_url (default_headers example_cfg alice_session caller_headers)
                    None None) = Some unauthorized"
    by (simp add: example_net_def)
  have c: "creds alice_session =
             Some \<lparr>username = ''alice'', password = ''pw'', creds_database_name = ''db''\<rparr>"
    by (simp add: alice_session_def)
  have l: "example_net 403 (trace alice_world @
              [Upstream ''GET'' example_url (default_headers example_cfg alice_session caller_headers)
                 None None])
             (relogin_request example_cfg
                \<lparr>username = ''alice'', password = ''pw'', creds_database_name = ''db''\<rparr>) =
           Some (login_reply 403)"
    by (rule example_login_answer)
  have refused: "status_code (login_reply 403) \<ge> 400" by (simp add: login_reply_def)
  from refused_relogin_leaves_session
    [where net = "example_net 403", OF alice_lookup host first example_first(2) c l refused run]
  show ?thesis by (simp add: alice_session_def)
qed

section \<open>The host allowlist\<close>






section \<open>Request headers\<close>







lemma default_headers_split:
  "default_headers cfg ses extra = dict_update (default_headers cfg ses []) extra"
  by (simp add: default_headers_def dict_update_def Let_def)


lemma default_headers_distinct:
  "distinct (map fst (default_headers cfg ses []))"
  by (simp add: default_headers_def dict_update_def Let_def update_keys split: option.splits)






lemma login_reply_yield:
  "extract_cookies (login_reply code) = ''JSESSIONID=new''" "extract_token (login_reply code) = None"
  by (simp_all add: extract_cookies_def extract_token_def login_reply_def headers_get_def py_or_def
      truthy_def content_type_def startswith_def)



section \<open>A re-login that yields no token\<close>








lemma renewed_world_eq:
  "renewed_world =
     alice_world\<lparr>sessions := [(''2500'', alice_session\<lparr>cookies := ''JSESSIONID=new'', auth_token := None\<rparr>)],
       trace := [first_request,
                 relogin_request example_cfg
                   \<lparr>username = ''alice'', password = ''pw'', creds_database_name = ''db''\<rparr>,
                 Upstream ''GET'' example_url
                   (retry_headers example_cfg alice_session (login_reply 200)
                      (default_headers example_cfg alice_session caller_headers)) None None]\<rparr>"
proof -
  have host: "host_of example_url = ALLOWED_HOST example_cfg" by (simp add: example_host)
  have first: "expired_once (trace alice_world)
                 (Upstream ''GET'' example_url (default_headers example_cfg alice_session caller_headers)
                    None None) = Some unauthorized"
    by (simp add: expired_once_def alice_trace)
  have c: "creds alice_session =
             Some \<lparr>username = ''alice'', password = ''pw'', creds_database_name = ''db''\<rparr>"
    by (simp add: alice_session_def)
  have l: "expired_once (trace alice_world @
              [Upstream ''GET'' example_url (default_headers example_cfg alice_session caller_headers)
                 None None])
             (relogin_request example_cfg
                \<lparr>username = ''alice'', password = ''pw'', creds_database_name = ''db''\<rparr>) =
           Some (login_reply 200)"
    by (simp add: expired_once_def relogin_request_def)
  have ok: "status_code (login_reply 200) < 400" by (simp add: login_reply_def)
  have "upstream_with_retry example_cfg expired_once ''2500'' ''GET'' example_url
          (default_headers example_cfg alice_session caller_headers) None None alice_world =
    ((case expired_once (trace alice_world @
             [Upstream ''GET'' example_url (default_headers example_cfg alice_session caller_headers) None None,
              relogin_request example_cfg \<lparr>username = ''alice'', password = ''pw'', creds_database_name = ''db''\<rparr>])
            (Upstream ''GET'' example_url (retry_headers example_cfg alice_session (login_reply 200)
                (default_headers example_cfg alice_session caller_headers)) None None) of
       None \<Rightarrow> Inl RequestException
     | Some r2 \<Rightarrow> Inr r2),
    alice_world\<lparr>sessions := AList.map_entry ''2500''
                      (\<lambda>s. s\<lparr>cookies := extract_cookies (login_reply 200),
                              auth_token := extract_token (login_reply 200)\<rparr>)
                      (sessions alice_world),
      trace := trace alice_world @
         [Upstream ''GET'' example_url (default_headers example_cfg alice_session caller_headers) None None,
          relogin_request example_cfg \<lparr>username = ''alice'', password = ''pw'', creds_database_name = ''db''\<rparr>,
          Upstream ''GET'' example_url (retry_headers example_cfg alice_session (login_reply 200)
                (default_headers example_cfg alice_session caller_headers)) None None]\<rparr>)"
    by (rule relay_retry [OF alice_lookup host _ example_first(2) c _ ok]) (rule first l)+
  then show ?thesis
    by (simp add: renewed_world_def first_request_def alice_trace login_reply_yield alice_world_eq)
qed


section \<open>The snapshot file\<close>

lemma add_session_persists:
  "disk_writable st \<Longrightarrow> disk (add_session k v st) = Some (sessions (add_session k v st))"
  by (simp add: add_session_def save_to_disk_def)

lemma remove_session_persists:
  "disk_writable st \<Longrightarrow> k \<in> fst ` set (sessions st) \<Longrightarrow>
   disk (remove_session k st) = Some (sessions (remove_session k st))"
  by (simp add: remove_session_def save_to_disk_def)

lemma clear_all_persists:
  "disk_writable st \<Longrightarrow> disk (clear_all st) = Some (sessions (clear_all st))"
  by (simp add: clear_all_def save_to_disk_def)

lemma relay_never_writes:
  "disk (snd (upstream_with_retry cfg net sid m url h d j w)) = disk w"
  by (auto simp: upstream_with_retry_def send_def try_login_def Let_def
      split: option.splits sum.splits failure.splits prod.splits)

text \<open>
  C5 at a concrete state.  The snapshot equals the store before the relay.  The
  relay re-authenticates and replaces the cookie and token of the session in the
  store; the snapshot file still holds the old session afterwards.
\<close>

theorem relogin_not_persisted:
  "disk alice_world = Some (sessions alice_world) \<and>
   sessions renewed_world =
     [(''2500'', alice_session\<lparr>cookies := ''JSESSIONID=new'', auth_token := None\<rparr>)] \<and>
   disk renewed_world = Some [(''2500'', alice_session)] \<and>
   disk renewed_world \<noteq> Some (sessions renewed_world)"
  by (simp add: renewed_world_eq alice_world_eq alice_session_def)

section \<open>Session resolution\<close>

lemma latest_id_known:
  assumes "get_latest_session_id w = Some sid"
  shows "\<exists>ses. map_of (sessions w) sid = Some ses"
proof -
  from assms have "sessions w \<noteq> []" by (auto simp: get_latest_session_id_def)
  from latest_split [OF this] assms obtain pre ses post where
    "sessions w = pre @ (sid, ses) # post" by auto
  then have "sid \<in> fst ` set (sessions w)" by force
  then show ?thesis by (metis map_of_eq_None_iff not_Some_eq)
qed

lemma session_active_id:
  "session_active w =
     (case get_latest_session_id w of
        None \<Rightarrow> Inl (HTTPException 404 ''No active sessions'')
      | Some sid \<Rightarrow>
          if sid = [] then Inl (HTTPException 404 ''No active sessions'')
          else (case map_of (sessions w) sid of
                  None \<Rightarrow> Inl (HTTPException 404 ''No active sessions'')
                | Some ses \<Rightarrow> Inr (ActiveSession sid (created_at ses) (creds ses \<noteq> None)
                                     (database_name ses))))"
  by (simp add: session_active_def get_latest_session_def split: option.splits)

text \<open>What \<open>GET /session/active\<close> reports as the identifier, if anything.\<close>

lemma active_id_cases:
  "(\<exists>e. session_active w = Inl e \<and> (get_latest_session_id w = None \<or> get_latest_session_id w = Some [])) \<or>
   (\<exists>sid t a db. session_active w = Inr (ActiveSession sid t a db) \<and> sid \<noteq> [] \<and>
                  get_latest_session_id w = Some sid)"
proof (cases "get_latest_session_id w")
  case None
  then show ?thesis by (simp add: session_active_id)
next
  case (Some sid)
  from latest_id_known [OF Some] obtain ses where "map_of (sessions w) sid = Some ses" ..
  with Some show ?thesis by (cases "sid = []") (simp_all add: session_active_id)
qed


lemma resolution_tiers:
  "get_session_id_or_latest cfg w provided =
     (case provided of
        None \<Rightarrow> latest_or_fail cfg w
      | Some sid \<Rightarrow> if sid = [] then latest_or_fail cfg w else Inr sid)"
proof -
  have auto: "\<not> truthy provided \<Longrightarrow> get_session_id_or_latest cfg w provided = latest_or_fail cfg w"
    using active_id_cases [of w]
    by (auto simp: get_session_id_or_latest_def latest_or_fail_def truthy_def Let_def)
  show ?thesis
  proof (cases provided)
    case None
    then show ?thesis using auto by (simp add: truthy_def)
  next
    case (Some sid)
    show ?thesis
    proof (cases "sid = []")
      case True
      with Some show ?thesis using auto by (simp add: truthy_def)
    next
      case False
      with Some show ?thesis by (simp add: get_session_id_or_latest_def truthy_def)
    qed
  qed
qed

lemma unresolved_entry_points:
  assumes "get_session_id_or_latest cfg w provided = Inl e"
  shows "req_session_id req = provided \<Longrightarrow> call cfg net req w = (Inl e, w)"
    and "obs_by_name cfg net provided name fields_csv order_by w = (Inl e, w)"
    and "projects_list cfg net provided filter_expr fields_csv order_by limit w = (Inl e, w)"
    and "obs_find cfg net provided q fields_csv order_by limit w = (Inl e, w)"
    and "projects_by_obs cfg net loads provided obs_name obs_id fields_csv order_by limit w = (Inl e, w)"
  using assms
  by (simp_all add: call_def obs_by_name_def projects_list_def obs_find_def projects_by_obs_def
      relay_get_def Let_def)

lemma unknown_id_entry_points:
  assumes "get_session_id_or_latest cfg w provided = Inr sid" and "get_session w sid = None"
  shows "req_session_id req = provided \<Longrightarrow>
           call cfg net req w =
             (Inl (HTTPException 401 ''Invalid or expired session_id. Please login again.''), w)"
    and "obs_by_name cfg net provided name fields_csv order_by w =
           (Inl (HTTPException 401 ''Invalid or expired session_id. Please login again.''), w)"
    and "projects_list cfg net provided filter_expr fields_csv order_by limit w =
           (Inl (HTTPException 401 ''Invalid or expired session_id. Please login again.''), w)"
    and "obs_find cfg net provided q fields_csv order_by limit w =
           (Inl (HTTPException 401 ''No valid session. Login and try again.''), w)"
    and "projects_by_obs cfg net loads provided obs_name obs_id fields_csv order_by limit w =
           (Inl (HTTPException 401 ''No valid session. Login and try again.''), w)"
  using assms
  by (simp_all add: call_def obs_by_name_def projects_list_def obs_find_def projects_by_obs_def
      relay_get_def Let_def)


lemma resolution_failure_status:
  "get_session_id_or_latest cfg w provided = Inl e \<Longrightarrow> \<exists>detail. e = HTTPException 401 detail"
  by (auto simp: get_session_id_or_latest_def Let_def split: if_splits)

text \<open>
  C6 (as amended).  Every entry point that takes an optional session identifier
  resolves it with the same function.  A supplied identifier that is not the empty
  string is returned as it is, whether or not the store knows it; the entry point
  then fails with 401 at its own store lookup when the store does not.  A missing
  identifier, and likewise an empty one, goes to the second tier: with
  auto-selection off the result is the 401 \<open>session_id required\<close>; with it on the
  result is the identifier that \<open>GET /session/active\<close> reports, and a 401 when
  that endpoint reports no session.  Whenever resolution fails, each entry point
  returns that failure with the state, and so the trace of requests, unchanged.
\<close>

theorem two_tier_resolution:
  "get_session_id_or_latest cfg w provided =
     (case provided of
        None \<Rightarrow> latest_or_fail cfg w
      | Some sid \<Rightarrow> if sid = [] then latest_or_fail cfg w else Inr sid) \<and>
   (\<forall>e. get_session_id_or_latest cfg w provided = Inl e \<longrightarrow>
      (\<exists>detail. e = HTTPException 401 detail) \<and>
      call cfg net (req\<lparr>req_session_id := provided\<rparr>) w = (Inl e, w) \<and>
      obs_by_name cfg net provided name fields_csv order_by w = (Inl e, w) \<and>
      projects_list cfg net provided filter_expr fields_csv order_by limit w = (Inl e, w) \<and>
      obs_find cfg net provided q fields_csv order_by limit w = (Inl e, w) \<and>
      projects_by_obs cfg net loads provided obs_name obs_id fields_csv order_by limit w = (Inl e, w)) \<and>
   (\<forall>sid. get_session_id_or_latest cfg w provided = Inr sid \<longrightarrow> get_session w sid = None \<longrightarrow>
      call cfg net (req\<lparr>req_session_id := provided\<rparr>) w =
        (Inl (HTTPException 401 ''Invalid or expired session_id. Please login again.''), w) \<and>
      obs_by_name cfg net provided name fields_csv order_by w =
        (Inl (HTTPException 401 ''Invalid or expired session_id. Please login again.''), w) \<and>
      projects_list cfg net provided filter_expr fields_csv order_by limit w =
        (Inl (HTTPException 401 ''Invalid or expired session_id. Please login again.''), w) \<and>
      obs_find cfg net provided q fields_csv order_by limit w =
        (Inl (HTTPException 401 ''No valid session. Login and try again.''), w) \<and>
      projects_by_obs cfg net loads provided obs_name obs_id fields_csv order_by limit w =
        (Inl (HTTPException 401 ''No valid session. Login and try again.''), w))"
proof (intro conjI allI impI)
  show "get_session_id_or_latest cfg w provided =
     (case provided of
        None \<Rightarrow> latest_or_fail cfg w
      | Some sid \<Rightarrow> if sid = [] then latest_or_fail cfg w else Inr sid)"
    by (rule resolution_tiers)
next
  fix e assume f: "get_session_id_or_latest cfg w provided = Inl e"
  show "\<exists>detail. e = HTTPException 401 detail" using f by (rule resolution_failure_status)
  show "call cfg net (req\<lparr>req_session_id := provided\<rparr>) w = (Inl e, w)"
    by (rule unresolved_entry_points(1) [OF f]) simp
  show "obs_by_name cfg net provided name fields_csv order_by w = (Inl e, w)"
    by (rule unresolved_entry_points(2) [OF f])
  show "projects_list cfg net provided filter_expr fields_csv order_by limit w = (Inl e, w)"
    by (rule unresolved_entry_points(3) [OF f])
  show "obs_find cfg net provided q fields_csv order_by limit w = (Inl e, w)"
    by (rule unresolved_entry_points(4) [OF f])
  show "projects_by_obs cfg net loads provided obs_name obs_id fields_csv order_by limit w = (Inl e, w)"
    by (rule unresolved_entry_points(5) [OF f])
next
  fix sid assume r: "get_session_id_or_latest cfg w provided = Inr sid" and n: "get_session w sid = None"
  show "call cfg net (req\<lparr>req_session_id := provided\<rparr>) w =
        (Inl (HTTPException 401 ''Invalid or expired session_id. Please login again.''), w)"
    by (rule unknown_id_entry_points(1) [OF r n]) simp
  show "obs_by_name cfg net provided name fields_csv order_by w =
        (Inl (HTTPException 401 ''Invalid or expired session_id. Please login again.''), w)"
    by (rule unknown_id_entry_points(2) [OF r n])
  show "projects_list cfg net provided filter_expr fields_csv order_by limit w =
        (Inl (HTTPException 401 ''Invalid or expired session_id. Please login again.''), w)"
    by (rule unknown_id_entry_points(3) [OF r n])
  show "obs_find cfg net provided q fields_csv order_by limit w =
        (Inl (HTTPException 401 ''No valid session. Login and try again.''), w)"
    by (rule unknown_id_entry_points(4) [OF r n])
  show "projects_by_obs cfg net loads provided obs_name obs_id fields_csv order_by limit w =
        (Inl (HTTPException 401 ''No valid session. Login and try again.''), w)"
    by (rule unknown_id_entry_points(5) [OF r n])
qed

lemma alice_active:
  "session_active alice_world = Inr (ActiveSession ''2500'' (5 / 2) True (Some ''db''))"
  by (simp add: session_active_def get_latest_session_def get_latest_session_id_def max_key_def
      alice_world_eq alice_session_def)

lemma example_cfg_flags:
  "AUTO_SESSION_ENABLED example_cfg" "\<not> AUTO_SESSION_ENABLED strict_cfg"
  by (simp_all add: example_cfg_def strict_cfg_def)

theorem two_tier_resolution_witness:
  "session_active alice_world = Inr (ActiveSession ''2500'' (5 / 2) True (Some ''db'')) \<and>
   get_session_id_or_latest example_cfg alice_world None = Inr ''2500'' \<and>
   get_session_id_or_latest example_cfg alice_world (Some ''1'') = Inr ''1'' \<and>
   call example_cfg (example_net 200) (example_call\<lparr>req_session_id := Some ''1''\<rparr>) alice_world =
     (Inl (HTTPException 401 ''Invalid or expired session_id. Please login again.''), alice_world) \<and>
   call strict_cfg (example_net 200) (example_call\<lparr>req_session_id := None\<rparr>) alice_world =
     (Inl (HTTPException 401 ''session_id required (AUTO_SESSION_ENABLED is disabled)''), alice_world)"
proof -
  note A = two_tier_resolution [of example_cfg alice_world None]
  note B = two_tier_resolution
    [of example_cfg alice_world "Some ''1''" "example_net 200" example_call]
  note C = two_tier_resolution [of strict_cfg alice_world None "example_net 200" example_call]
  from A have a: "get_session_id_or_latest example_cfg alice_world None = Inr ''2500''"
    by (simp add: latest_or_fail_def alice_active example_cfg_flags)
  from B have b: "get_session_id_or_latest example_cfg alice_world (Some ''1'') = Inr ''1''"
    by simp
  have n: "get_session alice_world ''1'' = None" by (simp add: alice_world_eq get_session_def)
  from B b n have b': "call example_cfg (example_net 200) (example_call\<lparr>req_session_id := Some ''1''\<rparr>)
                        alice_world =
     (Inl (HTTPException 401 ''Invalid or expired session_id. Please login again.''), alice_world)"
    by blast
  from C have c: "get_session_id_or_latest strict_cfg alice_world None =
                    Inl (HTTPException 401 ''session_id required (AUTO_SESSION_ENABLED is disabled)'')"
    by (simp add: latest_or_fail_def example_cfg_flags)
  from C c have c': "call strict_cfg (example_net 200) (example_call\<lparr>req_session_id := None\<rparr>)
                       alice_world =
     (Inl (HTTPException 401 ''session_id required (AUTO_SESSION_ENABLED is disabled)''), alice_world)"
    by blast
  from a b b' c' alice_active show ?thesis by blast
qed

text \<open>
  An identifier supplied as the empty string is not returned: with auto-selection
  on the latest session is taken instead, with it off the call fails as if no
  identifier had been given.
\<close>

theorem empty_identifier_counterexample:
  "get_session_id_or_latest example_cfg alice_world (Some []) = Inr ''2500'' \<and>
   get_session_id_or_latest example_cfg alice_world (Some []) \<noteq> Inr [] \<and>
   get_session_id_or_latest strict_cfg alice_world (Some []) =
     Inl (HTTPException 401 ''session_id required (AUTO_SESSION_ENABLED is disabled)'')"
  by (simp add: resolution_tiers latest_or_fail_def alice_active example_cfg_flags)

section \<open>The target URL\<close>

lemma hex_digit_safe: "n < 16 \<Longrightarrow> always_safe (hex_digit n)"
proof -
  assume "n < 16"
  then have "n < length ''0123456789ABCDEF''" by simp
  then have "''0123456789ABCDEF'' ! n \<in> set ''0123456789ABCDEF''" by (rule nth_mem)
  then show ?thesis unfolding hex_digit_def always_safe_def by auto
qed

lemma percent_safe: "c' \<in> set (percent c) \<Longrightarrow> query_safe c'"
proof -
  have "(of_char c :: nat) < 256" by simp
  then have "(of_char c :: nat) div 16 < 16" by arith
  moreover have "(of_char c :: nat) mod 16 < 16" by simp
  ultimately show "c' \<in> set (percent c) \<Longrightarrow> query_safe c'"
    by (auto simp: percent_def query_safe_def hex_digit_safe)
qed

lemma quote_plus_safe: "c \<in> set (quote_plus s) \<Longrightarrow> query_safe c"
  by (auto simp: quote_plus_def quote_def query_safe_def dest: percent_safe split: if_splits)

lemma join_set: "c \<in> set (join sep xs) \<Longrightarrow> c \<in> set sep \<or> (\<exists>x \<in> set xs. c \<in> set x)"
  by (induction sep xs rule: join.induct) auto

lemma encode_item_safe: "x \<in> set (encode_item kv) \<Longrightarrow> c \<in> set x \<Longrightarrow> query_safe c"
proof -
  obtain k v where kv: "kv = (k, v)" by (cases kv)
  have pair: "c \<in> set (quote_plus k @ ''='' @ quote_plus t) \<Longrightarrow> query_safe c" for t
    using quote_plus_safe by (auto simp: query_safe_def)
  show "x \<in> set (encode_item kv) \<Longrightarrow> c \<in> set x \<Longrightarrow> query_safe c"
    using pair by (cases v) (auto simp: kv)
qed

lemma urlencode_safe: "c \<in> set (urlencode params) \<Longrightarrow> query_safe c"
proof -
  assume "c \<in> set (urlencode params)"
  then have "c \<in> set ''&'' \<or> (\<exists>x \<in> set (concat (map encode_item params)). c \<in> set x)"
    unfolding urlencode_def by (rule join_set)
  then show ?thesis
    by (auto simp: query_safe_def dest: encode_item_safe)
qed


lemma rstrip_slash_id: "s = [] \<or> last s \<noteq> CHR ''/'' \<Longrightarrow> rstrip_slash s = s"
proof (cases "s = []")
  case True
  then show ?thesis by (simp add: rstrip_slash_def)
next
  case False
  assume "s = [] \<or> last s \<noteq> CHR ''/''"
  with False have "hd (rev s) \<noteq> CHR ''/''" by (simp add: hd_rev)
  moreover from False have "rev s \<noteq> []" by simp
  ultimately have "dropWhile (\<lambda>c. c = CHR ''/'') (rev s) = rev s"
    by (cases "rev s") simp_all
  then show ?thesis by (simp add: rstrip_slash_def)
qed

text \<open>
  C9 (as amended).  The target URL is the configured base with its trailing
  \<open>/\<close> characters removed (the base itself when it has none), followed by the path,
  to which a \<open>/\<close> is prepended when it does not start with one.  Without query
  parameters (none given, or an empty dictionary) nothing follows the path: no
  \<open>?\<close> is added.  With query parameters a \<open>?\<close> and their encoding follow; the
  encoding consists of the bytes \<open>A-Z a-z 0-9 _ . - ~ % + = &\<close> only, and for a
  string value it is the quoted key, \<open>=\<close>, and the quoted value.
\<close>

theorem target_url_shape:
  "build_target_url cfg path query =
     rstrip_slash (P6_BASE_URL cfg) @ (if startswith path ''/'' then path else ''/'' @ path) @
     (case query of None \<Rightarrow> [] | Some q \<Rightarrow> if q = [] then [] else ''?'' @ urlencode q) \<and>
   (P6_BASE_URL cfg = [] \<or> last (P6_BASE_URL cfg) \<noteq> CHR ''/'' \<longrightarrow>
      rstrip_slash (P6_BASE_URL cfg) = P6_BASE_URL cfg) \<and>
   startswith (if startswith path ''/'' then path else ''/'' @ path) ''/'' \<and>
   (\<forall>c \<in> set (urlencode params). query_safe c) \<and>
   urlencode [(k, Scalar (AStr v))] = quote_plus k @ ''='' @ quote_plus v"
proof (intro conjI)
  show "build_target_url cfg path query =
     rstrip_slash (P6_BASE_URL cfg) @ (if startswith path ''/'' then path else ''/'' @ path) @
     (case query of None \<Rightarrow> [] | Some q \<Rightarrow> if q = [] then [] else ''?'' @ urlencode q)"
    by (simp add: build_target_url_def Let_def split: option.splits)
  show "P6_BASE_URL cfg = [] \<or> last (P6_BASE_URL cfg) \<noteq> CHR ''/'' \<longrightarrow>
      rstrip_slash (P6_BASE_URL cfg) = P6_BASE_URL cfg"
    using rstrip_slash_id by blast
  show "startswith (if startswith path ''/'' then path else ''/'' @ path) ''/''"
    by (simp add: startswith_def)
  show "\<forall>c \<in> set (urlencode params). query_safe c"
    by (auto dest: urlencode_safe)
  show "urlencode [(k, Scalar (AStr v))] = quote_plus k @ ''='' @ quote_plus v"
    by (simp add: urlencode_def)
qed

lemma quote_plus_examples:
  "quote_plus ''Filter'' = ''Filter''"
  "quote_plus (''Name='' @ [CHR 0x27] @ ''X'' @ [CHR 0x27]) = ''Name%3D%27X%27''"
  by (simp_all add: quote_plus_def quote_def always_safe_def percent_def hex_digit_def)

lemma example_base:
  "P6_BASE_URL example_cfg = ''http://p6/api''" "P6_BASE_URL slash_cfg = ''http://p6/api/''"
  by (simp_all add: example_cfg_def slash_cfg_def)

theorem target_url_shape_witness:
  "build_target_url example_cfg ''projects/123'' None = ''http://p6/api/projects/123'' \<and>
   build_target_url example_cfg ''/obs'' (Some filter_query) =
     ''http://p6/api/obs?Filter=Name%3D%27X%27'' \<and>
   list_all query_safe ''Filter=Name%3D%27X%27''"
proof -
  note A = target_url_shape [of example_cfg "''projects/123''" None]
  note B = target_url_shape [of example_cfg "''/obs''" "Some filter_query" filter_query
      "''Filter''" "''Name='' @ [CHR 0x27] @ ''X'' @ [CHR 0x27]"]
  have nb: "P6_BASE_URL example_cfg = [] \<or> last (P6_BASE_URL example_cfg) \<noteq> CHR ''/''"
    by (simp add: example_base)
  from A have a0: "build_target_url example_cfg ''projects/123'' None =
      rstrip_slash (P6_BASE_URL example_cfg) @
      (if startswith ''projects/123'' ''/'' then ''projects/123'' else ''/'' @ ''projects/123'') @
      (case None of None \<Rightarrow> [] | Some q \<Rightarrow> if q = [] then [] else ''?'' @ urlencode q)"
    by blast
  from A nb have rs: "rstrip_slash (P6_BASE_URL example_cfg) = P6_BASE_URL example_cfg" by blast
  from a0 rs have a: "build_target_url example_cfg ''projects/123'' None = ''http://p6/api/projects/123''"
    by (simp add: example_base startswith_def)
  from B have e1: "urlencode [(''Filter'', Scalar (AStr (''Name='' @ [CHR 0x27] @ ''X'' @ [CHR 0x27])))] =
      quote_plus ''Filter'' @ ''='' @ quote_plus (''Name='' @ [CHR 0x27] @ ''X'' @ [CHR 0x27])"
    by blast
  have enc: "urlencode filter_query = ''Filter=Name%3D%27X%27''"
    unfolding filter_query_def e1 quote_plus_examples by simp
  have ne: "filter_query \<noteq> []" by (simp add: filter_query_def)
  from B have b0: "build_target_url example_cfg ''/obs'' (Some filter_query) =
      rstrip_slash (P6_BASE_URL example_cfg) @
      (if startswith ''/obs'' ''/'' then ''/obs'' else ''/'' @ ''/obs'') @
      (case Some filter_query of None \<Rightarrow> [] | Some q \<Rightarrow> if q = [] then [] else ''?'' @ urlencode q)"
    by blast
  from b0 rs ne enc have b: "build_target_url example_cfg ''/obs'' (Some filter_query) =
     ''http://p6/api/obs?Filter=Name%3D%27X%27''"
    by (simp add: example_base startswith_def)
  from B have "\<forall>c \<in> set (urlencode filter_query). query_safe c" by blast
  then have c: "list_all query_safe ''Filter=Name%3D%27X%27''"
    unfolding enc by (simp only: list_all_iff)
  from a b c show ?thesis by blast
qed

text \<open>
  A base that ends in \<open>/\<close> and a path that contains \<open>?\<close>, no query parameters:
  the URL is not the base followed by the normalised path, and it contains a \<open>?\<close>.
\<close>

theorem target_url_counterexample:
  "build_target_url slash_cfg ''a?b'' None = ''http://p6/api/a?b'' \<and>
   build_target_url slash_cfg ''a?b'' None \<noteq> P6_BASE_URL slash_cfg @ ''/a?b'' \<and>
   CHR ''?'' \<in> set (build_target_url slash_cfg ''a?b'' None)"
  by (simp add: build_target_url_def example_base startswith_def rstrip_slash_def)

section \<open>The host of a URL built on a well-formed base\<close>

lemma default_headers_is_dict: "distinct (map fst (default_headers cfg ses extra))"
proof -
  have "distinct (map fst d) \<Longrightarrow> distinct (map fst (dict_update d e))" for d e
  proof (induction e arbitrary: d)
    case Nil
    then show ?case by (simp add: dict_update_def)
  next
    case (Cons p e)
    obtain a b where p: "p = (a, b)" by (cases p)
    have "dict_update d (p # e) = dict_update (AList.update a b d) e"
      by (simp add: dict_update_def p)
    with Cons.IH [of "AList.update a b d"] Cons.prems show ?case
      by (simp add: distinct_update)
  qed
  with default_headers_distinct [of cfg ses] show ?thesis
    by (subst default_headers_split) blast
qed

lemma split_double_slash:
  "CHR ''/'' \<notin> set a \<Longrightarrow> split_once ''//'' (a @ CHR ''/'' # CHR ''/'' # b) = Some (a, b)"
  by (induction a) auto

lemma split_single_slash:
  "CHR ''/'' \<notin> set a \<Longrightarrow> split_once ''/'' (a @ CHR ''/'' # b) = Some (a, b)"
  by (induction a) auto

lemma split_single_none: "CHR ''/'' \<notin> set a \<Longrightarrow> split_once ''/'' a = None"
  by (induction a) auto

lemma host_of_form:
  assumes "CHR ''/'' \<notin> set scheme" and "CHR ''/'' \<notin> set host" and "rest = [] \<or> hd rest = CHR ''/''"
  shows "host_of (scheme @ ''//'' @ host @ rest) = host"
proof (cases rest)
  case Nil
  with assms show ?thesis
    by (simp add: host_of_def split1_last_def split1_first_def split_double_slash split_single_none)
next
  case (Cons c cs)
  with assms have "rest = CHR ''/'' # cs" by simp
  with assms show ?thesis
    by (simp add: host_of_def split1_last_def split1_first_def split_double_slash split_single_slash)
qed

lemma rstrip_slash_append:
  assumes "x \<noteq> []" and "last x \<noteq> CHR ''/''"
  shows "rstrip_slash (x @ y) = x @ rstrip_slash y"
proof (cases "\<forall>c \<in> set y. c = CHR ''/''")
  case True
  then have "dropWhile (\<lambda>c. c = CHR ''/'') (rev y) = []" by simp
  moreover from assms have "dropWhile (\<lambda>c. c = CHR ''/'') (rev x) = rev x"
    by (cases "rev x") (simp_all add: last_rev [symmetric] hd_rev)
  ultimately show ?thesis using True
    by (simp add: rstrip_slash_def dropWhile_append)
next
  case False
  then obtain c where "c \<in> set (rev y)" "\<not> c = CHR ''/''" by auto
  then have "dropWhile (\<lambda>c. c = CHR ''/'') (rev y @ rev x) = dropWhile (\<lambda>c. c = CHR ''/'') (rev y) @ rev x"
    by (rule dropWhile_append1)
  then show ?thesis by (simp add: rstrip_slash_def)
qed

lemma rstrip_slash_head:
  "rest = [] \<or> hd rest = CHR ''/'' \<Longrightarrow> rstrip_slash rest = [] \<or> hd (rstrip_slash rest) = CHR ''/''"
proof -
  assume r: "rest = [] \<or> hd rest = CHR ''/''"
  have "rest = rstrip_slash rest @ rev (takeWhile (\<lambda>c. c = CHR ''/'') (rev rest))"
    unfolding rstrip_slash_def
    by (metis rev_append rev_rev_ident takeWhile_dropWhile_id)
  then have "rstrip_slash rest \<noteq> [] \<Longrightarrow> hd rest = hd (rstrip_slash rest)"
    by (metis hd_append2)
  with r show ?thesis by (cases "rstrip_slash rest = []") (auto simp: rstrip_slash_def)
qed

lemma target_host:
  assumes "base_form (P6_BASE_URL cfg) scheme host rest"
  shows "host_of (build_target_url cfg path query) = host"
    and "DEFAULT_ALLOWED_HOST cfg = host"
    and "host_of (login_url cfg db_name) = host"
proof -
  from assms have b: "P6_BASE_URL cfg = scheme @ ''//'' @ host @ rest"
    and s: "CHR ''/'' \<notin> set scheme" and h: "CHR ''/'' \<notin> set host" and ne: "host \<noteq> []"
    and r: "rest = [] \<or> hd rest = CHR ''/''"
    by (simp_all add: base_form_def)
  from h ne have lh: "last (scheme @ ''//'' @ host) \<noteq> CHR ''/''"
    by (metis append_is_Nil_conv last_appendR last_in_set)
  have "rstrip_slash (P6_BASE_URL cfg) = (scheme @ ''//'' @ host) @ rstrip_slash rest"
    unfolding b using rstrip_slash_append [of "scheme @ ''//'' @ host" rest] lh by simp
  then have rs: "rstrip_slash (P6_BASE_URL cfg) = scheme @ ''//'' @ host @ rstrip_slash rest" by simp
  let ?p = "if startswith path ''/'' then path else ''/'' @ path"
  let ?q = "case query of None \<Rightarrow> [] | Some q \<Rightarrow> if q = [] then [] else ''?'' @ urlencode q"
  have p: "?p \<noteq> [] \<and> hd ?p = CHR ''/''"
    by (cases path) (auto simp: startswith_def)
  from rstrip_slash_head [OF r] p
  have tail: "rstrip_slash rest @ ?p @ ?q = [] \<or> hd (rstrip_slash rest @ ?p @ ?q) = CHR ''/''"
    by (cases "rstrip_slash rest") auto
  have "build_target_url cfg path query = scheme @ ''//'' @ host @ (rstrip_slash rest @ ?p @ ?q)"
    by (simp add: build_target_url_def Let_def rs split: option.splits)
  then show "host_of (build_target_url cfg path query) = host"
    using host_of_form [OF s h tail] by simp
  show "DEFAULT_ALLOWED_HOST cfg = host"
    unfolding DEFAULT_ALLOWED_HOST_def b by (rule host_of_form [OF s h r])
  have "rest @ ''/login?DatabaseName='' @ quote ''/'' db_name = [] \<or>
        hd (rest @ ''/login?DatabaseName='' @ quote ''/'' db_name) = CHR ''/''"
    using r by (cases rest) auto
  from host_of_form [OF s h this]
  show "host_of (login_url cfg db_name) = host"
    by (simp add: login_url_def b)
qed


text \<open>
  With a well-formed base and no \<open>ALLOWED_HOST\<close> override, the host computed for
  the target is the host of the base whatever path and query the caller sends, so
  the allowlist check passes, and the re-login request goes to the same host.
\<close>

lemma target_host_allowed:
  assumes "base_form (P6_BASE_URL cfg) scheme host rest" and "ALLOWED_HOST_env cfg = None"
  shows "host_of (build_target_url cfg path query) = ALLOWED_HOST cfg"
    and "host_of (login_url cfg db_name) = ALLOWED_HOST cfg"
  using target_host [OF assms(1)] assms(2) by (simp_all add: ALLOWED_HOST_def)

lemma example_base_form: "base_form (P6_BASE_URL example_cfg) ''http:'' ''p6'' ''/api''"
  by (simp add: base_form_def example_cfg_def)

end
